theory Spec2Isabelle
  imports Complex_Main
begin

section \<open>The alert service of aggr (src/services/alertService.ts)\<close>

text \<open>
  The class \<open>AlertService\<close> is embedded function by function. Every method is
  asynchronous and works on the fields of the service, on the objects its caller hands it and
  on its collaborators (the workspace store, the price feed, the push platform, the alerting
  backend, the notice surface and the event bus). All of this is one record, \<open>world\<close>;
  a method takes the world and returns its outcome together with the world it leaves behind.
  What the collaborators answer is a field of the world, so that a theorem quantifies over
  every answer they can give.
\<close>

subsection \<open>JavaScript values\<close>

text \<open>
  A JavaScript number: a finite value, one of the infinities, or NaN. Finite values are
  reals: rounding, overflow to an infinity and the sign of zero are left out, the
  comparisons and the special values are as in the language.
\<close>

datatype jsnum = Fin real | PosInf | NegInf | NaN

text \<open>\<open>a < b\<close> and \<open>a > b\<close> on numbers: false as soon as one side is NaN.\<close>

fun js_lt :: "jsnum \<Rightarrow> jsnum \<Rightarrow> bool" where
  "js_lt NaN b = False"
| "js_lt a NaN = False"
| "js_lt (Fin x) (Fin y) = (x < y)"
| "js_lt (Fin x) PosInf = True"
| "js_lt (Fin x) NegInf = False"
| "js_lt PosInf b = False"
| "js_lt NegInf NegInf = False"
| "js_lt NegInf b = True"

definition js_gt :: "jsnum \<Rightarrow> jsnum \<Rightarrow> bool" where
  "js_gt a b = js_lt b a"

text \<open>\<open>a === b\<close> and \<open>a !== b\<close> on numbers: NaN is equal to nothing, itself included.\<close>

definition js_strict_eq :: "jsnum \<Rightarrow> jsnum \<Rightarrow> bool" where
  "js_strict_eq a b = (a \<noteq> NaN \<and> a = b)"

definition js_strict_neq :: "jsnum \<Rightarrow> jsnum \<Rightarrow> bool" where
  "js_strict_neq a b = (\<not> js_strict_eq a b)"

text \<open>\<open>a / b\<close>, \<open>a - b\<close> and \<open>a * b\<close>.\<close>

fun js_div :: "jsnum \<Rightarrow> jsnum \<Rightarrow> jsnum" where
  "js_div NaN b = NaN"
| "js_div a NaN = NaN"
| "js_div (Fin x) (Fin y) =
     (if y = 0 then (if x = 0 then NaN else if 0 < x then PosInf else NegInf)
      else Fin (x / y))"
| "js_div (Fin x) b = Fin 0"
| "js_div PosInf (Fin y) = (if y < 0 then NegInf else PosInf)"
| "js_div NegInf (Fin y) = (if y < 0 then PosInf else NegInf)"
| "js_div a b = NaN"

fun js_sub :: "jsnum \<Rightarrow> jsnum \<Rightarrow> jsnum" where
  "js_sub NaN b = NaN"
| "js_sub a NaN = NaN"
| "js_sub (Fin x) (Fin y) = Fin (x - y)"
| "js_sub (Fin x) PosInf = NegInf"
| "js_sub (Fin x) NegInf = PosInf"
| "js_sub PosInf PosInf = NaN"
| "js_sub PosInf b = PosInf"
| "js_sub NegInf NegInf = NaN"
| "js_sub NegInf b = NegInf"

fun js_mul :: "jsnum \<Rightarrow> jsnum \<Rightarrow> jsnum" where
  "js_mul NaN b = NaN"
| "js_mul a NaN = NaN"
| "js_mul (Fin x) (Fin y) = Fin (x * y)"
| "js_mul (Fin x) PosInf = (if x = 0 then NaN else if 0 < x then PosInf else NegInf)"
| "js_mul (Fin x) NegInf = (if x = 0 then NaN else if 0 < x then NegInf else PosInf)"
| "js_mul PosInf (Fin y) = (if y = 0 then NaN else if 0 < y then PosInf else NegInf)"
| "js_mul NegInf (Fin y) = (if y = 0 then NaN else if 0 < y then NegInf else PosInf)"
| "js_mul PosInf PosInf = PosInf"
| "js_mul PosInf NegInf = NegInf"
| "js_mul NegInf PosInf = NegInf"
| "js_mul NegInf NegInf = PosInf"

text \<open>
  Truthiness, as \<open>if (x)\<close> and \<open>!x\<close> read it: \<open>null\<close> and \<open>undefined\<close> (here
  \<open>None\<close>), zero, NaN and the empty string are falsy.
\<close>

fun truthy_num :: "jsnum option \<Rightarrow> bool" where
  "truthy_num None = False"
| "truthy_num (Some (Fin x)) = (x \<noteq> 0)"
| "truthy_num (Some NaN) = False"
| "truthy_num (Some a) = True"

fun truthy_str :: "string option \<Rightarrow> bool" where
  "truthy_str None = False"
| "truthy_str (Some s) = (s \<noteq> [])"

text \<open>
  A value whose type the code tests (\<open>typeof price !== 'number'\<close>): a number, or
  anything else.
\<close>

datatype jsval = JNumber jsnum | JString string | JUndefined

text \<open>What a method can throw; \<open>message\<close> is \<open>err.message\<close>.\<close>

datatype error = TypeError string | SyntaxError string | Error string | DOMException string

fun message :: "error \<Rightarrow> string" where
  "message (TypeError m) = m"
| "message (SyntaxError m) = m"
| "message (Error m) = m"
| "message (DOMException m) = m"

text \<open>
  How an asynchronous call ends: it returns, it throws (its promise is rejected), or it stays
  suspended at an \<open>await\<close> whose promise never settles.
\<close>

datatype 'a outcome = Returned 'a | Thrown error | Suspended

subsection \<open>Data\<close>

text \<open>
  Modelled from the spec: the type \<open>MarketAlert\<close> of \<open>@/types/types\<close> is not among
  the sources; the fields are those of the spec's Alert, which are the ones the service reads
  and writes.
\<close>

record alert =
  market :: string
  price :: jsnum
  timestamp :: int
  active :: bool
  triggered :: bool

text \<open>
  The payload of a notification or of a service worker message, as
  \<open>markAlertsAsTriggered\<close> receives it.
\<close>

record trigger_event =
  ev_price :: jsval
  ev_direction :: jsval
  ev_market :: "string option"

text \<open>The serialised push subscription; the code only tests and forwards it.\<close>

datatype subscription = PushSubscription string

text \<open>The JSON body of a POST to the alert endpoint.\<close>

record request =
  req_subscription :: subscription
  req_origin :: string
  req_market :: string
  req_price :: jsnum
  req_currentPrice :: "jsnum option"
  req_unsubscribe :: "bool option"
  req_status :: "bool option"
  req_newPrice :: "jsnum option"

text \<open>
  \<open>AlertResponse\<close>, with the two fields the service reads, and what a \<open>fetch\<close>
  followed by \<open>response.json()\<close> can give: the request fails, or a response arrives
  with some status and a body that does not parse, is \<open>null\<close> or is an object.
\<close>

record alert_response =
  resp_error :: "string option"
  resp_alert :: "(string \<times> jsnum) option"

datatype json_body = NotJson string | JsonNull | JsonObject alert_response

datatype fetch_result = NetworkFailure string | HttpResponse nat json_body

text \<open>The notices shown, the events emitted on topic \<open>alert\<close>, and the log of effects.\<close>

datatype notice =
    AddedNotice string jsnum
  | RemovedNotice string jsnum
  | NotFoundNotice
  | RegistrationFailure string

datatype alert_event =
    AddEvent jsnum string int
  | MoveEvent jsnum string jsnum
  | RemoveEvent jsnum string
  | TriggerPayload trigger_event

datatype effect =
    Fetch request
  | HandleFetchError string
  | ConsoleError jsnum jsnum
  | Notice notice
  | Emit alert_event
  | SaveAlerts string "alert list"

datatype promise_state = Pending | Fulfilled | Rejected error

text \<open>
  The world. The first three fields are the fields of the service; \<open>promises\<close> holds
  the state of every promise created by \<open>syncTriggeredAlerts\<close>, by its number.
  \<open>alertObjs\<close> and \<open>arrayObjs\<close> are the caller's alert objects and arrays, by
  reference: the service mutates them in place. \<open>store\<close> is what the workspace store
  holds for each market. \<open>readyCallbacks\<close> are the gates whose sync still waits for
  \<open>navigator.serviceWorker.ready\<close>. The remaining fields are the environment: whether
  \<open>navigator.serviceWorker\<close> exists, what registering and subscribing with a given key
  gives, \<open>location.href\<close>, the next snapshot of the price feed (\<open>None\<close> when the
  feed never publishes), and the backend's answer to each request.
\<close>

record world =
  publicVapidKey :: "string option"
  pushSubscription :: "subscription option"
  promiseOfSync :: "nat option"
  promises :: "nat \<Rightarrow> promise_state"
  nextPromise :: nat
  messageListeners :: nat
  alertObjs :: "nat \<Rightarrow> alert"
  arrayObjs :: "nat \<Rightarrow> nat list"
  store :: "string \<Rightarrow> alert list"
  hasServiceWorker :: bool
  platformSubscribe :: "string \<Rightarrow> error + subscription"
  locationHref :: string
  readyCallbacks :: "nat list"
  feed :: "(string \<Rightarrow> jsnum option) option"
  backend :: "request \<Rightarrow> fetch_result"
  trace :: "effect list"

definition effect :: "effect \<Rightarrow> world \<Rightarrow> world" where
  "effect e w = w\<lparr>trace := trace w @ [e]\<rparr>"

subsection \<open>The workspace store\<close>

text \<open>
  Modelled from the spec: \<open>workspacesService\<close> is not among the sources. The spec gives
  its interface, \<open>getAlerts(market) -> Alert[]\<close> and \<open>saveAlerts({market, alerts})\<close>:
  a durable list of alert records per market. A save stores the records as they are at the
  call.
\<close>

definition wsGetAlerts :: "world \<Rightarrow> string \<Rightarrow> alert list" where
  "wsGetAlerts w m = store w m"

definition wsSaveAlerts :: "string \<Rightarrow> alert list \<Rightarrow> world \<Rightarrow> world" where
  "wsSaveAlerts m xs w = effect (SaveAlerts m xs) (w\<lparr>store := (store w)(m := xs)\<rparr>)"

subsection \<open>Validation\<close>

text \<open>
  \<open>getPrice\<close> waits for the next \<open>prices\<close> event and resolves to \<open>null\<close> when
  the snapshot has no entry for the market, to the entry's price otherwise.
\<close>

definition getPrice :: "world \<Rightarrow> string \<Rightarrow> jsnum option outcome" where
  "getPrice w m = (case feed w of None \<Rightarrow> Suspended | Some marketsStats \<Rightarrow> Returned (marketsStats m))"

definition percentChangeToAlert :: "jsnum \<Rightarrow> jsnum \<Rightarrow> jsnum" where
  "percentChangeToAlert p marketPrice = js_mul (js_sub (js_div p marketPrice) (Fin 1)) (Fin 100)"

definition validateAlert :: "world \<Rightarrow> string \<Rightarrow> jsnum \<Rightarrow> bool outcome \<times> world" where
  "validateAlert w m p =
     (case getPrice w m of
        Suspended \<Rightarrow> (Suspended, w)
      | Thrown e \<Rightarrow> (Thrown e, w)
      | Returned marketPrice \<Rightarrow>
          (if truthy_num marketPrice then
             (if js_lt p (Fin 0)
                 \<or> js_gt (percentChangeToAlert p (the marketPrice)) (Fin 100)
                 \<or> js_lt (percentChangeToAlert p (the marketPrice)) (Fin (- 50))
              then (Returned False, effect (ConsoleError p (the marketPrice)) w)
              else (Returned True, w))
           else (Returned True, w)))"

subsection \<open>The push subscription\<close>

text \<open>
  \<open>getPushSubscription\<close>: nothing without a key, the cached subscription when there is
  one, else the platform's answer (which may throw: no registration, permission denied, a key
  that is not base64), cached; nothing when the browser has no service worker.
\<close>

definition getPushSubscription :: "world \<Rightarrow> subscription option outcome \<times> world" where
  "getPushSubscription w =
     (if \<not> truthy_str (publicVapidKey w) then (Returned None, w)
      else (case pushSubscription w of
              Some s \<Rightarrow> (Returned (Some s), w)
            | None \<Rightarrow>
                (if hasServiceWorker w then
                   (case platformSubscribe w (the (publicVapidKey w)) of
                      Inl e \<Rightarrow> (Thrown e, w)
                    | Inr s \<Rightarrow> (Returned (Some s), w\<lparr>pushSubscription := Some s\<rparr>))
                 else (Returned None, w))))"

subsection \<open>Registration with the backend\<close>

text \<open>
  The chain \<open>fetch(...).then(response => response.json()).then(data => ...)\<close> that
  \<open>toggleAlert\<close> and \<open>moveAlert\<close> share, up to its \<open>catch\<close>: \<open>Inl\<close> is the
  error the \<open>catch\<close> receives, \<open>Inr\<close> the parsed object that carries no error. The
  status of the response is not read.
\<close>

definition fetchJson :: "request \<Rightarrow> world \<Rightarrow> (error + alert_response) \<times> world" where
  "fetchJson req w =
     (case backend w req of
        NetworkFailure msg \<Rightarrow> (Inl (TypeError msg), effect (Fetch req) w)
      | HttpResponse status body \<Rightarrow>
          (case body of
             NotJson msg \<Rightarrow> (Inl (SyntaxError msg), effect (Fetch req) w)
           | JsonNull \<Rightarrow>
               (Inl (TypeError ''Cannot read properties of null (reading error)''),
                effect (Fetch req) w)
           | JsonObject data \<Rightarrow>
               (if truthy_str (resp_error data)
                then (Inl (Error (the (resp_error data))), effect (Fetch req) w)
                else (Inr data, effect (Fetch req) w))))"

text \<open>
  Modelled from the spec: \<open>handleFetchError\<close> of \<open>@/utils/helpers\<close> is not among the
  sources. The spec has a remote failure caught at this boundary and converted to a result,
  so the helper is an entry in the log of effects and does not throw.
\<close>

definition handleFetchError :: "error \<Rightarrow> world \<Rightarrow> world" where
  "handleFetchError err w = effect (HandleFetchError (message err)) w"

text \<open>\<open>location.href.replace(/#.*/, '')\<close>, for an address of one line.\<close>

definition stripHash :: "string \<Rightarrow> string" where
  "stripHash href = takeWhile (\<lambda>c. c \<noteq> CHR ''#'') href"

text \<open>
  \<open>toggleAlert\<close>: \<open>Returned None\<close> is the bare \<open>return\<close>, which resolves to
  \<open>undefined\<close>.
\<close>

definition toggleAlert ::
  "world \<Rightarrow> string \<Rightarrow> jsnum \<Rightarrow> jsnum option \<Rightarrow> bool option \<Rightarrow> bool option
     \<Rightarrow> alert_response option outcome \<times> world" where
  "toggleAlert w m p currentPrice unsub status =
     (case getPushSubscription w of
        (Suspended, w1) \<Rightarrow> (Suspended, w1)
      | (Thrown e, w1) \<Rightarrow> (Thrown e, w1)
      | (Returned None, w1) \<Rightarrow> (Returned None, w1)
      | (Returned (Some sub), w1) \<Rightarrow>
          (case validateAlert w1 m p of
             (Suspended, w2) \<Rightarrow> (Suspended, w2)
           | (Thrown e, w2) \<Rightarrow> (Thrown e, w2)
           | (Returned False, w2) \<Rightarrow> (Returned None, w2)
           | (Returned True, w2) \<Rightarrow>
               (case fetchJson
                       \<lparr>req_subscription = sub, req_origin = stripHash (locationHref w2),
                        req_market = m, req_price = p, req_currentPrice = currentPrice,
                        req_unsubscribe = unsub, req_status = status,
                        req_newPrice = None\<rparr> w2 of
                  (Inr data, w3) \<Rightarrow> (Returned (Some data), w3)
                | (Inl err, w3) \<Rightarrow>
                    (Returned (Some \<lparr>resp_error = Some (message err), resp_alert = None\<rparr>),
                     handleFetchError err w3))))"

text \<open>
  \<open>subscribe\<close> and \<open>unsubscribe\<close> read a property of what \<open>toggleAlert\<close> resolved
  to; on \<open>undefined\<close> that read throws a TypeError.
\<close>

definition subscribe ::
  "world \<Rightarrow> string \<Rightarrow> jsnum \<Rightarrow> jsnum option \<Rightarrow> alert_response outcome \<times> world" where
  "subscribe w m p currentPrice =
     (case toggleAlert w m p currentPrice None None of
        (Suspended, w1) \<Rightarrow> (Suspended, w1)
      | (Thrown e, w1) \<Rightarrow> (Thrown e, w1)
      | (Returned None, w1) \<Rightarrow>
          (Thrown (TypeError ''Cannot read properties of undefined (reading error)''), w1)
      | (Returned (Some data), w1) \<Rightarrow>
          (if \<not> truthy_str (resp_error data)
           then (Returned data, effect (Notice (AddedNotice m p)) w1)
           else (Returned data, w1)))"

definition unsubscribe ::
  "world \<Rightarrow> string \<Rightarrow> jsnum \<Rightarrow> alert_response outcome \<times> world" where
  "unsubscribe w m p =
     (case toggleAlert w m p None (Some True) None of
        (Suspended, w1) \<Rightarrow> (Suspended, w1)
      | (Thrown e, w1) \<Rightarrow> (Thrown e, w1)
      | (Returned None, w1) \<Rightarrow>
          (Thrown (TypeError ''Cannot read properties of undefined (reading alert)''), w1)
      | (Returned (Some data), w1) \<Rightarrow>
          (case resp_alert data of
             Some (am, ap) \<Rightarrow> (Returned data, effect (Notice (RemovedNotice am ap)) w1)
           | None \<Rightarrow>
               (if \<not> truthy_str (resp_error data)
                then (Returned data, effect (Notice NotFoundNotice) w1)
                else (Returned data, w1))))"

subsection \<open>Create, move, remove\<close>

text \<open>
  The alert is an object and the list an array of the caller's, both given by reference.
  \<open>deref\<close> reads an array with its objects as they are now.
\<close>

definition deref :: "world \<Rightarrow> nat \<Rightarrow> alert list" where
  "deref w arr = map (alertObjs w) (arrayObjs w arr)"

definition createAlert :: "world \<Rightarrow> nat \<Rightarrow> nat \<Rightarrow> jsnum option \<Rightarrow> unit outcome \<times> world" where
  "createAlert w created arr currentPrice =
     (let w0 = w\<lparr>arrayObjs := (arrayObjs w)(arr := arrayObjs w arr @ [created])\<rparr> in
      case subscribe w0 (market (alertObjs w0 created)) (price (alertObjs w0 created))
             currentPrice of
        (Suspended, w1) \<Rightarrow> (Suspended, w1)
      | (r, w1) \<Rightarrow>
          (let w2 = (case r of
                       Returned data \<Rightarrow>
                         w1\<lparr>alertObjs := (alertObjs w1)
                              (created := (alertObjs w1 created)
                                 \<lparr>active := \<not> truthy_str (resp_error data)\<rparr>)\<rparr>
                     | Thrown err \<Rightarrow> effect (Notice (RegistrationFailure (message err))) w1
                     | Suspended \<Rightarrow> w1);
               w3 = wsSaveAlerts (market (alertObjs w2 created)) (deref w2 arr) w2
           in (Returned (),
               effect (Emit (AddEvent (price (alertObjs w3 created))
                                      (market (alertObjs w3 created))
                                      (timestamp (alertObjs w3 created)))) w3)))"

definition moveAlert :: "world \<Rightarrow> nat \<Rightarrow> jsnum \<Rightarrow> jsnum \<Rightarrow> nat \<Rightarrow> unit outcome \<times> world" where
  "moveAlert w moved newPrice currentPrice arr =
     (case getPushSubscription w of
        (Suspended, w1) \<Rightarrow> (Suspended, w1)
      | (Thrown e, w1) \<Rightarrow> (Thrown e, w1)
      | (Returned None, w1) \<Rightarrow> (Returned (), w1)
      | (Returned (Some sub), w1) \<Rightarrow>
          (case validateAlert w1 (market (alertObjs w1 moved)) newPrice of
             (Suspended, w2) \<Rightarrow> (Suspended, w2)
           | (Thrown e, w2) \<Rightarrow> (Thrown e, w2)
           | (Returned False, w2) \<Rightarrow> (Returned (), w2)
           | (Returned True, w2) \<Rightarrow>
               (case fetchJson
                       \<lparr>req_subscription = sub, req_origin = locationHref w2,
                        req_market = market (alertObjs w2 moved),
                        req_price = price (alertObjs w2 moved),
                        req_currentPrice = Some currentPrice,
                        req_unsubscribe = None, req_status = None,
                        req_newPrice = Some newPrice\<rparr> w2 of
                  (r, w3) \<Rightarrow>
                    (let w4 = (case r of Inr json \<Rightarrow> w3 | Inl err \<Rightarrow> handleFetchError err w3);
                         isActive = (case r of Inr json \<Rightarrow> True | Inl err \<Rightarrow> False);
                         w5 = effect (Emit (MoveEvent (price (alertObjs w4 moved))
                                                      (market (alertObjs w4 moved)) newPrice)) w4;
                         w6 = w5\<lparr>alertObjs := (alertObjs w5)
                                 (moved := (alertObjs w5 moved)
                                    \<lparr>triggered := False, active := isActive,
                                     price := newPrice\<rparr>)\<rparr>
                     in (Returned (),
                         wsSaveAlerts (market (alertObjs w6 moved)) (deref w6 arr) w6)))))"

text \<open>
  \<open>removeAlert\<close>. In its \<open>catch\<close> the name \<open>alert\<close> is the browser's global
  function, which is truthy, so the notice depends on \<open>removedAlert.active\<close> alone.
\<close>

definition removeAlert :: "world \<Rightarrow> nat \<Rightarrow> nat option \<Rightarrow> unit outcome \<times> world" where
  "removeAlert w removed marketAlerts =
     (case (if \<not> triggered (alertObjs w removed)
            then unsubscribe w (market (alertObjs w removed)) (price (alertObjs w removed))
            else (Returned \<lparr>resp_error = None, resp_alert = None\<rparr>, w)) of
        (Suspended, w1) \<Rightarrow> (Suspended, w1)
      | (r, w1) \<Rightarrow>
          (let w2 = (case r of
                       Thrown err \<Rightarrow>
                         (if active (alertObjs w1 removed)
                          then effect (Notice (RegistrationFailure (message err))) w1
                          else w1)
                     | Returned data \<Rightarrow> w1
                     | Suspended \<Rightarrow> w1);
               w3 = effect (Emit (RemoveEvent (price (alertObjs w2 removed))
                                              (market (alertObjs w2 removed)))) w2
           in (case marketAlerts of
                 None \<Rightarrow> (Returned (), w3)
               | Some arr \<Rightarrow>
                   (Returned (),
                    wsSaveAlerts (market (alertObjs w3 removed))
                      (filter (\<lambda>a. js_strict_neq (price a) (price (alertObjs w3 removed)))
                         (deref w3 arr)) w3))))"

subsection \<open>Reconciliation\<close>

text \<open>
  \<open>markAlertsAsTriggered\<close> groups the prices by market in an object literal \<open>{}\<close>.
  Its own properties are an association list in insertion order. The object also inherits
  the properties of \<open>Object.prototype\<close>: for one of these names \<open>acc[market]\<close> is
  a function (for \<open>__proto__\<close> the prototype itself), which is truthy and has no
  \<open>push\<close>, so that \<open>acc[market].push(price)\<close> throws a TypeError.
\<close>

definition objectPrototypeKeys :: "string list" where
  "objectPrototypeKeys =
     [''constructor'', ''__defineGetter__'', ''__defineSetter__'', ''hasOwnProperty'',
      ''__lookupGetter__'', ''__lookupSetter__'', ''isPrototypeOf'', ''propertyIsEnumerable'',
      ''toString'', ''valueOf'', ''__proto__'', ''toLocaleString'']"

definition pushPrice :: "string \<Rightarrow> jsnum \<Rightarrow> (string \<times> jsnum list) list \<Rightarrow> (string \<times> jsnum list) list" where
  "pushPrice m p acc = map (\<lambda>(k, ps). if k = m then (k, ps @ [p]) else (k, ps)) acc"

text \<open>The callback of the \<open>reduce\<close>, and the \<open>reduce\<close> itself.\<close>

definition groupStep ::
  "(string \<times> jsnum list) list \<Rightarrow> trigger_event \<Rightarrow> error + (string \<times> jsnum list) list" where
  "groupStep acc ev =
     (if \<not> truthy_str (ev_market ev) then Inr acc
      else (case ev_price ev of
              JString s \<Rightarrow> Inr acc
            | JUndefined \<Rightarrow> Inr acc
            | JNumber p \<Rightarrow>
                (case map_of acc (the (ev_market ev)) of
                   None \<Rightarrow>
                     (if the (ev_market ev) \<in> set objectPrototypeKeys
                      then Inl (TypeError ''acc[market].push is not a function'')
                      else Inr (acc @ [(the (ev_market ev), [p])]))
                 | Some ps \<Rightarrow> Inr (pushPrice (the (ev_market ev)) p acc))))"

fun groupByMarket ::
  "(string \<times> jsnum list) list \<Rightarrow> trigger_event list \<Rightarrow> error + (string \<times> jsnum list) list" where
  "groupByMarket acc [] = Inr acc"
| "groupByMarket acc (ev # evs) =
     (case groupStep acc ev of Inl err \<Rightarrow> Inl err | Inr acc' \<Rightarrow> groupByMarket acc' evs)"

text \<open>
  The order in which \<open>for (const market in markets)\<close> visits the keys: those that are
  array indices (canonical decimal numerals below \<open>2^32 - 1\<close>) in ascending order, then
  the others in insertion order.
\<close>

definition indexValue :: "string \<Rightarrow> nat" where
  "indexValue s = foldl (\<lambda>n c. 10 * n + (of_char c - 48)) 0 s"

definition isArrayIndex :: "string \<Rightarrow> bool" where
  "isArrayIndex s =
     (s \<noteq> [] \<and> list_all (\<lambda>c. c \<in> set ''0123456789'') s
      \<and> (s = ''0'' \<or> hd s \<noteq> CHR ''0'') \<and> indexValue s < 2 ^ 32 - 1)"

definition forInOrder :: "(string \<times> 'a) list \<Rightarrow> (string \<times> 'a) list" where
  "forInOrder acc =
     sort_key (\<lambda>kv. indexValue (fst kv)) (filter (\<lambda>kv. isArrayIndex (fst kv)) acc)
       @ filter (\<lambda>kv. \<not> isArrayIndex (fst kv)) acc"

text \<open>
  \<open>alerts.find(a => a.price === price)\<close> followed by \<open>alert.triggered = true\<close>: the
  first alert of the list with that price is marked, the list is otherwise as it was.
\<close>

fun markFirst :: "jsnum \<Rightarrow> alert list \<Rightarrow> alert list" where
  "markFirst p [] = []"
| "markFirst p (a # as) =
     (if js_strict_eq (price a) p then a\<lparr>triggered := True\<rparr> # as else a # markFirst p as)"

text \<open>The loop over the markets: load, skip an empty list, mark every price, save.\<close>

fun processMarkets :: "(string \<times> jsnum list) list \<Rightarrow> world \<Rightarrow> world" where
  "processMarkets [] w = w"
| "processMarkets ((m, ps) # rest) w =
     (if wsGetAlerts w m = [] then processMarkets rest w
      else processMarkets rest (wsSaveAlerts m (fold markFirst ps (wsGetAlerts w m)) w))"

definition markAlertsAsTriggered :: "world \<Rightarrow> trigger_event list \<Rightarrow> unit outcome \<times> world" where
  "markAlertsAsTriggered w evs =
     (case groupByMarket [] evs of
        Inl err \<Rightarrow> (Thrown err, w)
      | Inr markets \<Rightarrow> (Returned (), processMarkets (forInOrder markets) w))"

text \<open>
  \<open>syncTriggeredAlerts\<close> assigns a new promise to \<open>_promiseOfSync\<close> and returns. The
  promise is pending while the sync waits for \<open>navigator.serviceWorker.ready\<close>; where the
  browser has no service worker its executor throws and the promise is rejected.
\<close>

definition syncTriggeredAlerts :: "world \<Rightarrow> world" where
  "syncTriggeredAlerts w =
     (if hasServiceWorker w then
        w\<lparr>promiseOfSync := Some (nextPromise w),
          promises := (promises w)(nextPromise w := Pending),
          nextPromise := Suc (nextPromise w),
          readyCallbacks := readyCallbacks w @ [nextPromise w]\<rparr>
      else
        w\<lparr>promiseOfSync := Some (nextPromise w),
          promises := (promises w)
            (nextPromise w :=
               Rejected (TypeError ''Cannot read properties of undefined (reading ready)'')),
          nextPromise := Suc (nextPromise w)\<rparr>)"

text \<open>
  The callback that waits for \<open>navigator.serviceWorker.ready\<close>, for the sync that made
  gate \<open>g\<close>, run with the notifications the registration holds: it marks the alerts, then
  resolves, and the \<open>then\<close> of the gate adds the listener for messages. When marking
  throws, \<open>resolve\<close> is never called and the gate stays pending.
\<close>

definition serviceWorkerReady :: "nat \<Rightarrow> trigger_event list \<Rightarrow> world \<Rightarrow> world" where
  "serviceWorkerReady g notifications w =
     (if g \<notin> set (readyCallbacks w) then w
      else (case markAlertsAsTriggered (w\<lparr>readyCallbacks := removeAll g (readyCallbacks w)\<rparr>)
                   notifications of
              (Returned u, w1) \<Rightarrow>
                w1\<lparr>promises := (promises w1)(g := Fulfilled),
                   messageListeners := Suc (messageListeners w1)\<rparr>
            | (Thrown e, w1) \<Rightarrow> w1
            | (Suspended, w1) \<Rightarrow> w1))"

text \<open>
  The listener for messages: it starts \<open>markAlertsAsTriggered\<close> without awaiting it, so
  the event is emitted first and an error of the marking is lost.
\<close>

definition onMessage :: "trigger_event \<Rightarrow> world \<Rightarrow> world" where
  "onMessage ev w = snd (markAlertsAsTriggered (effect (Emit (TriggerPayload ev)) w) [ev])"

text \<open>
  \<open>getAlerts\<close> in two steps, since the world moves on while it waits. The call reads
  \<open>_promiseOfSync\<close> and, if there is one, awaits that promise; \<open>getAlerts_resume\<close> is
  what the call has come to in a later world \<open>w\<close>.
\<close>

datatype getAlerts_task = NoGate | AwaitGate nat

definition getAlerts_call :: "world \<Rightarrow> getAlerts_task" where
  "getAlerts_call w = (case promiseOfSync w of None \<Rightarrow> NoGate | Some g \<Rightarrow> AwaitGate g)"

fun getAlerts_resume :: "getAlerts_task \<Rightarrow> world \<Rightarrow> string \<Rightarrow> alert list outcome" where
  "getAlerts_resume NoGate w m = Returned (wsGetAlerts w m)"
| "getAlerts_resume (AwaitGate g) w m =
     (case promises w g of
        Pending \<Rightarrow> Suspended
      | Fulfilled \<Rightarrow> Returned (wsGetAlerts w m)
      | Rejected e \<Rightarrow> Thrown e)"

definition getAlerts :: "world \<Rightarrow> string \<Rightarrow> alert list outcome" where
  "getAlerts w m = getAlerts_resume (getAlerts_call w) w m"

subsection \<open>Vocabulary of the statements\<close>

text \<open>The effects logged between a world and a later one.\<close>

definition newEffects :: "world \<Rightarrow> world \<Rightarrow> effect list" where
  "newEffects w w' = drop (length (trace w)) (trace w')"

definition isFetch :: "effect \<Rightarrow> bool" where
  "isFetch e = (case e of Fetch req \<Rightarrow> True | _ \<Rightarrow> False)"

text \<open>
  \<open>sameService w w'\<close>: the gate, the promises, the listeners and the environment are in
  \<open>w'\<close> as in \<open>w\<close>. \<open>sameObjects w w'\<close>: so are the caller's objects and arrays and
  the store.
\<close>

definition sameService :: "world \<Rightarrow> world \<Rightarrow> bool" where
  "sameService w w' =
     (publicVapidKey w' = publicVapidKey w \<and> promiseOfSync w' = promiseOfSync w
      \<and> promises w' = promises w \<and> nextPromise w' = nextPromise w
      \<and> messageListeners w' = messageListeners w \<and> readyCallbacks w' = readyCallbacks w
      \<and> hasServiceWorker w' = hasServiceWorker w \<and> platformSubscribe w' = platformSubscribe w
      \<and> locationHref w' = locationHref w \<and> feed w' = feed w \<and> backend w' = backend w)"

definition sameObjects :: "world \<Rightarrow> world \<Rightarrow> bool" where
  "sameObjects w w' =
     (alertObjs w' = alertObjs w \<and> arrayObjs w' = arrayObjs w \<and> store w' = store w)"

text \<open>
  The worlds a process can be in. It starts with no gate; then the methods of the service
  run, the service worker becomes ready for a sync that waits for it, a message arrives once
  a listener is there, and everything that is not the service's own (the caller's objects,
  the store, the environment, the log) changes in any way.
\<close>

inductive reachable :: "world \<Rightarrow> bool" where
  start: "promiseOfSync w = None \<Longrightarrow> readyCallbacks w = [] \<Longrightarrow> messageListeners w = 0
            \<Longrightarrow> reachable w"
| sync: "reachable w \<Longrightarrow> reachable (syncTriggeredAlerts w)"
| ready: "reachable w \<Longrightarrow> reachable (serviceWorkerReady g notifications w)"
| message: "reachable w \<Longrightarrow> 0 < messageListeners w \<Longrightarrow> reachable (onMessage ev w)"
| mark: "reachable w \<Longrightarrow> reachable (snd (markAlertsAsTriggered w evs))"
| subscription: "reachable w \<Longrightarrow> reachable (snd (getPushSubscription w))"
| validate: "reachable w \<Longrightarrow> reachable (snd (validateAlert w m p))"
| toggle: "reachable w \<Longrightarrow> reachable (snd (toggleAlert w m p currentPrice unsub status))"
| subscribe: "reachable w \<Longrightarrow> reachable (snd (subscribe w m p currentPrice))"
| unsubscribe: "reachable w \<Longrightarrow> reachable (snd (unsubscribe w m p))"
| create: "reachable w \<Longrightarrow> reachable (snd (createAlert w created arr currentPrice))"
| move: "reachable w \<Longrightarrow> reachable (snd (moveAlert w moved newPrice currentPrice arr))"
| remove: "reachable w \<Longrightarrow> reachable (snd (removeAlert w removed marketAlerts))"
| surroundings:
    "reachable w \<Longrightarrow> promiseOfSync w' = promiseOfSync w \<Longrightarrow> promises w' = promises w
       \<Longrightarrow> nextPromise w' = nextPromise w \<Longrightarrow> readyCallbacks w' = readyCallbacks w
       \<Longrightarrow> messageListeners w' = messageListeners w
       \<Longrightarrow> pushSubscription w' = pushSubscription w \<Longrightarrow> reachable w'"

text \<open>The gate, when there is one, is a promise that has been created.\<close>

definition gateAllocated :: "world \<Rightarrow> bool" where
  "gateAllocated w = (case promiseOfSync w of None \<Rightarrow> True | Some g \<Rightarrow> g < nextPromise w)"

text \<open>
  The prices that a list of events carries for a market: those of the events that name the
  market and whose price is a number, in the order of the list. An event collides when it
  would be grouped under a name that \<open>Object.prototype\<close> already defines.
\<close>

definition eventPrices :: "string \<Rightarrow> trigger_event list \<Rightarrow> jsnum list" where
  "eventPrices m evs =
     concat (map (\<lambda>ev. case ev_price ev of
                          JNumber p \<Rightarrow> (if ev_market ev = Some m \<and> m \<noteq> [] then [p] else [])
                        | JString s \<Rightarrow> []
                        | JUndefined \<Rightarrow> []) evs)"

text \<open>The prices grouped under a market, none when the market is not a key.\<close>

definition groupedPrices :: "(string \<times> jsnum list) list \<Rightarrow> string \<Rightarrow> jsnum list" where
  "groupedPrices acc m = (case map_of acc m of None \<Rightarrow> [] | Some ps \<Rightarrow> ps)"

definition collides :: "trigger_event \<Rightarrow> bool" where
  "collides ev =
     (case ev_price ev of
        JNumber p \<Rightarrow> truthy_str (ev_market ev) \<and> the (ev_market ev) \<in> set objectPrototypeKeys
      | JString s \<Rightarrow> False
      | JUndefined \<Rightarrow> False)"

subsection \<open>Concrete worlds\<close>

text \<open>
  A fresh process in a browser with a service worker: no key, nothing stored, a feed without
  prices, a backend that answers every request with an empty object. Every object of the
  caller is the alert on \<open>ETH-USD\<close> at \<open>2000\<close>.
\<close>

definition sampleAlert :: alert where
  "sampleAlert = \<lparr>market = ''ETH-USD'', price = Fin 2000, timestamp = 0,
                   active = False, triggered = False\<rparr>"

definition world0 :: world where
  "world0 =
     \<lparr>publicVapidKey = None, pushSubscription = None, promiseOfSync = None,
      promises = (\<lambda>g. Pending), nextPromise = 0, messageListeners = 0,
      alertObjs = (\<lambda>r. sampleAlert),
      arrayObjs = (\<lambda>r. []), store = (\<lambda>m. []), hasServiceWorker = True,
      platformSubscribe = (\<lambda>k. Inr (PushSubscription ''endpoint'')),
      locationHref = ''https://aggr.trade/#pane'', readyCallbacks = [],
      feed = Some (\<lambda>m. None),
      backend = (\<lambda>r. HttpResponse 200 (JsonObject \<lparr>resp_error = None, resp_alert = None\<rparr>)),
      trace = []\<rparr>"

text \<open>The same with a key configured, and with a feed that prices every market at 100.\<close>

definition worldKey :: world where
  "worldKey = world0\<lparr>publicVapidKey := Some ''BPk''\<rparr>"

definition worldPriced :: world where
  "worldPriced = worldKey\<lparr>feed := Some (\<lambda>m. Some (Fin 100))\<rparr>"

text \<open>
  The same as \<open>worldKey\<close> where array 0 of the caller holds two alerts on
  \<open>ETH-USD\<close>: object 0 at \<open>2000\<close> and object 1 at \<open>2500\<close>.
\<close>

definition worldList :: world where
  "worldList = worldKey\<lparr>alertObjs := (\<lambda>r. sampleAlert)(1 := sampleAlert\<lparr>price := Fin 2500\<rparr>),
                        arrayObjs := (\<lambda>r. [])(0 := [0, 1])\<rparr>"

text \<open>The same as \<open>worldList\<close> where object 0 has triggered.\<close>

definition worldTriggered :: world where
  "worldTriggered =
     worldList\<lparr>alertObjs := (alertObjs worldList)(0 := sampleAlert\<lparr>triggered := True\<rparr>)\<rparr>"

text \<open>The same as \<open>worldList\<close> with the feed that prices every market at 100.\<close>

definition worldListPriced :: world where
  "worldListPriced = worldList\<lparr>feed := Some (\<lambda>m. Some (Fin 100))\<rparr>"

text \<open>A browser in which the user has denied the permission to notify.\<close>

definition worldDenied :: world where
  "worldDenied = worldKey\<lparr>platformSubscribe :=
     (\<lambda>k. Inl (DOMException ''Registration failed - permission denied''))\<rparr>"

text \<open>
  A fresh process whose store already holds the alert, and the notification that says the
  alert has fired.
\<close>

definition worldStored :: world where
  "worldStored = world0\<lparr>store := (\<lambda>m. [])(''ETH-USD'' := [sampleAlert])\<rparr>"

definition sampleEvent :: trigger_event where
  "sampleEvent = \<lparr>ev_price = JNumber (Fin 2000), ev_direction = JUndefined,
                   ev_market = Some ''ETH-USD''\<rparr>"

text \<open>A notification for a market that is called \<open>constructor\<close>.\<close>

definition constructorEvent :: trigger_event where
  "constructorEvent = \<lparr>ev_price = JNumber (Fin 1), ev_direction = JUndefined,
                        ev_market = Some ''constructor''\<rparr>"

section \<open>Properties\<close>

subsection \<open>What each step leaves alone\<close>

lemma sameService_refl: "sameService w w"
  by (simp add: sameService_def)

lemma sameService_trans: "sameService a b \<Longrightarrow> sameService b c \<Longrightarrow> sameService a c"
  by (simp add: sameService_def)

lemma sameObjects_refl: "sameObjects w w"
  by (simp add: sameObjects_def)

lemma sameObjects_trans: "sameObjects a b \<Longrightarrow> sameObjects b c \<Longrightarrow> sameObjects a c"
  by (simp add: sameObjects_def)

lemma effect_frame:
  "sameService w (effect e w)" "sameObjects w (effect e w)"
  "pushSubscription (effect e w) = pushSubscription w"
  "trace (effect e w) = trace w @ [e]"
  by (simp_all add: sameService_def sameObjects_def effect_def)

lemma wsSaveAlerts_frame:
  "sameService w (wsSaveAlerts m xs w)"
  "pushSubscription (wsSaveAlerts m xs w) = pushSubscription w"
  "alertObjs (wsSaveAlerts m xs w) = alertObjs w"
  "arrayObjs (wsSaveAlerts m xs w) = arrayObjs w"
  "store (wsSaveAlerts m xs w) = (store w)(m := xs)"
  "trace (wsSaveAlerts m xs w) = trace w @ [SaveAlerts m xs]"
  by (simp_all add: sameService_def wsSaveAlerts_def effect_def)

lemma getPushSubscription_frame:
  "sameService w (snd (getPushSubscription w))"
  "sameObjects w (snd (getPushSubscription w))"
  "trace (snd (getPushSubscription w)) = trace w"
  by (simp_all add: sameService_def sameObjects_def getPushSubscription_def
        split: option.splits sum.splits)

lemma getPushSubscription_None:
  "fst (getPushSubscription w) = Returned None \<Longrightarrow> snd (getPushSubscription w) = w"
  by (simp add: getPushSubscription_def split: option.splits sum.splits if_splits)

lemma getPushSubscription_no_key:
  "\<not> truthy_str (publicVapidKey w) \<Longrightarrow> getPushSubscription w = (Returned None, w)"
  by (simp add: getPushSubscription_def)

lemma getPushSubscription_not_Suspended: "fst (getPushSubscription w) \<noteq> Suspended"
  by (simp add: getPushSubscription_def split: option.splits sum.splits)

lemma getPushSubscription_objects:
  "getPushSubscription (w\<lparr>arrayObjs := x\<rparr>) =
     (fst (getPushSubscription w), (snd (getPushSubscription w))\<lparr>arrayObjs := x\<rparr>)"
  by (simp add: getPushSubscription_def split: option.splits sum.splits)

lemma validateAlert_frame:
  "sameService w (snd (validateAlert w m p))"
  "sameObjects w (snd (validateAlert w m p))"
  "pushSubscription (snd (validateAlert w m p)) = pushSubscription w"
  by (simp_all add: sameService_def sameObjects_def validateAlert_def getPrice_def effect_def
        split: option.splits)

lemma validateAlert_True:
  "fst (validateAlert w m p) = Returned True \<Longrightarrow> snd (validateAlert w m p) = w"
  by (cases "feed w") (auto simp add: validateAlert_def getPrice_def split: if_splits)

lemma validateAlert_False:
  "fst (validateAlert w m p) = Returned False \<Longrightarrow>
   \<exists>marketPrice. snd (validateAlert w m p) = effect (ConsoleError p marketPrice) w"
  by (cases "feed w") (auto simp add: validateAlert_def getPrice_def split: if_splits)

lemma validateAlert_not_Thrown: "fst (validateAlert w m p) \<noteq> Thrown e"
  by (simp add: validateAlert_def getPrice_def split: option.splits)

lemma validateAlert_objects:
  "validateAlert (w\<lparr>arrayObjs := x\<rparr>) m p =
     (fst (validateAlert w m p), (snd (validateAlert w m p))\<lparr>arrayObjs := x\<rparr>)"
  by (simp add: validateAlert_def getPrice_def effect_def split: option.splits)

lemma fetchJson_frame:
  "sameService w (snd (fetchJson req w))"
  "sameObjects w (snd (fetchJson req w))"
  "pushSubscription (snd (fetchJson req w)) = pushSubscription w"
  "snd (fetchJson req w) = effect (Fetch req) w"
  by (simp_all add: sameService_def sameObjects_def fetchJson_def effect_def
        split: fetch_result.splits json_body.splits)

lemma handleFetchError_frame:
  "sameService w (handleFetchError err w)" "sameObjects w (handleFetchError err w)"
  "pushSubscription (handleFetchError err w) = pushSubscription w"
  by (simp_all add: handleFetchError_def effect_frame)

lemma toggleAlert_frame:
  "sameService w (snd (toggleAlert w m p c u s))"
  "sameObjects w (snd (toggleAlert w m p c u s))"
proof -
  let ?w1 = "snd (getPushSubscription w)"
  let ?w2 = "snd (validateAlert ?w1 m p)"
  have s2: "sameService w ?w2"
    by (rule sameService_trans [OF getPushSubscription_frame(1) validateAlert_frame(1)])
  have o2: "sameObjects w ?w2"
    by (rule sameObjects_trans [OF getPushSubscription_frame(2) validateAlert_frame(2)])
  have s3: "sameService w (snd (fetchJson req ?w2))" for req
    by (rule sameService_trans [OF s2 fetchJson_frame(1)])
  have o3: "sameObjects w (snd (fetchJson req ?w2))" for req
    by (rule sameObjects_trans [OF o2 fetchJson_frame(2)])
  have s4: "sameService w (handleFetchError err (snd (fetchJson req ?w2)))" for req err
    by (rule sameService_trans [OF s3 handleFetchError_frame(1)])
  have o4: "sameObjects w (handleFetchError err (snd (fetchJson req ?w2)))" for req err
    by (rule sameObjects_trans [OF o3 handleFetchError_frame(2)])
  show "sameService w (snd (toggleAlert w m p c u s))"
    using getPushSubscription_frame(1) [of w] s2 s3 s4
    by (simp add: toggleAlert_def split_beta
          split: outcome.splits option.splits bool.splits sum.splits)
  show "sameObjects w (snd (toggleAlert w m p c u s))"
    using getPushSubscription_frame(2) [of w] o2 o3 o4
    by (simp add: toggleAlert_def split_beta
          split: outcome.splits option.splits bool.splits sum.splits)
qed

lemma subscribe_frame:
  "sameService w (snd (subscribe w m p c))" "sameObjects w (snd (subscribe w m p c))"
  using toggleAlert_frame [of w m p c None None]
        sameService_trans [OF toggleAlert_frame(1) effect_frame(1)]
        sameObjects_trans [OF toggleAlert_frame(2) effect_frame(2)]
  by (simp_all add: subscribe_def split_beta split: outcome.splits option.splits)

lemma unsubscribe_frame:
  "sameService w (snd (unsubscribe w m p))" "sameObjects w (snd (unsubscribe w m p))"
  using toggleAlert_frame [of w m p None "Some True" None]
        sameService_trans [OF toggleAlert_frame(1) effect_frame(1)]
        sameObjects_trans [OF toggleAlert_frame(2) effect_frame(2)]
  by (simp_all add: unsubscribe_def split_beta split: outcome.splits option.splits)

lemma sameService_objects:
  "sameService w (w\<lparr>arrayObjs := x\<rparr>)" "sameService w (w\<lparr>alertObjs := y\<rparr>)"
  by (simp_all add: sameService_def)

lemma createAlert_frame: "sameService w (snd (createAlert w created arr c))"
proof -
  let ?w0 = "w\<lparr>arrayObjs := (arrayObjs w)(arr := arrayObjs w arr @ [created])\<rparr>"
  let ?s = "subscribe ?w0 (market (alertObjs ?w0 created)) (price (alertObjs ?w0 created)) c"
  have s1: "sameService w (snd ?s)"
    by (rule sameService_trans [OF sameService_objects(1) subscribe_frame(1)])
  have s2: "sameService w ((snd ?s)\<lparr>alertObjs := y\<rparr>)" for y
    by (rule sameService_trans [OF s1 sameService_objects(2)])
  have s3: "sameService w (effect e (snd ?s))" for e
    by (rule sameService_trans [OF s1 effect_frame(1)])
  have fin: "sameService w v \<Longrightarrow> sameService w (effect e (wsSaveAlerts k xs v))" for v e k xs
    by (blast intro: sameService_trans wsSaveAlerts_frame(1) effect_frame(1))
  show ?thesis
    using s1 s2 s3 fin
    by (simp add: createAlert_def Let_def split_beta split: outcome.splits)
qed

lemma moveAlert_frame: "sameService w (snd (moveAlert w moved newPrice currentPrice arr))"
proof -
  let ?w1 = "snd (getPushSubscription w)"
  let ?w2 = "snd (validateAlert ?w1 (market (alertObjs ?w1 moved)) newPrice)"
  have s1: "sameService w ?w1" by (rule getPushSubscription_frame(1))
  have s2: "sameService w ?w2"
    by (rule sameService_trans [OF s1 validateAlert_frame(1)])
  have s3: "sameService w (snd (fetchJson req ?w2))" for req
    by (rule sameService_trans [OF s2 fetchJson_frame(1)])
  have s4: "sameService w (handleFetchError err (snd (fetchJson req ?w2)))" for req err
    by (rule sameService_trans [OF s3 handleFetchError_frame(1)])
  have fin: "sameService w v \<Longrightarrow>
      sameService w (wsSaveAlerts k xs ((effect e v)\<lparr>alertObjs := y\<rparr>))" for v e k xs y
    by (blast intro: sameService_trans wsSaveAlerts_frame(1) effect_frame(1) sameService_objects(2))
  show ?thesis
    using s1 s2 fin [OF s3] fin [OF s4]
    by (simp add: moveAlert_def Let_def split_beta
          split: outcome.splits option.splits bool.splits sum.splits)
qed

lemma removeAlert_frame: "sameService w (snd (removeAlert w removed marketAlerts))"
proof -
  let ?a = "alertObjs w removed"
  let ?u = "unsubscribe w (market ?a) (price ?a)"
  have s1: "sameService w (snd ?u)" by (rule unsubscribe_frame(1))
  have s2: "sameService w (effect e (snd ?u))" for e
    by (rule sameService_trans [OF s1 effect_frame(1)])
  have fin: "sameService w v \<Longrightarrow> sameService w (effect e v)"
            "sameService w v \<Longrightarrow> sameService w (wsSaveAlerts k xs (effect e v))" for v e k xs
    by (blast intro: sameService_trans wsSaveAlerts_frame(1) effect_frame(1))+
  show ?thesis
    using s1 fin [OF s1] fin [OF s2] fin [OF sameService_refl [of w]]
    by (simp add: removeAlert_def Let_def split_beta
          split: outcome.splits option.splits)
qed

lemma processMarkets_frame:
  "sameService w (processMarkets kvs w)"
  "pushSubscription (processMarkets kvs w) = pushSubscription w"
  "alertObjs (processMarkets kvs w) = alertObjs w"
  "arrayObjs (processMarkets kvs w) = arrayObjs w"
proof (induction kvs arbitrary: w)
  case Nil
  { case 1 show ?case by (simp add: sameService_refl) }
  { case 2 show ?case by simp }
  { case 3 show ?case by simp }
  { case 4 show ?case by simp }
next
  case (Cons kv kvs)
  obtain m ps where kv: "kv = (m, ps)" by (cases kv)
  { case 1 show ?case
      using Cons.IH(1) sameService_trans [OF wsSaveAlerts_frame(1) Cons.IH(1)]
      by (simp add: kv) }
  { case 2 show ?case using Cons.IH(2) by (simp add: kv wsSaveAlerts_frame) }
  { case 3 show ?case using Cons.IH(3) by (simp add: kv wsSaveAlerts_frame) }
  { case 4 show ?case using Cons.IH(4) by (simp add: kv wsSaveAlerts_frame) }
qed

lemma markAlertsAsTriggered_frame:
  "sameService w (snd (markAlertsAsTriggered w evs))"
  "pushSubscription (snd (markAlertsAsTriggered w evs)) = pushSubscription w"
  "alertObjs (snd (markAlertsAsTriggered w evs)) = alertObjs w"
  "arrayObjs (snd (markAlertsAsTriggered w evs)) = arrayObjs w"
  by (simp_all add: markAlertsAsTriggered_def processMarkets_frame sameService_refl
        split: sum.splits)

subsection \<open>Validation of a price\<close>

text \<open>
  C3, as amended. \<open>validateAlert\<close> returns once the feed has published its next
  snapshot, and not before: while the feed does not publish, the call stays suspended. When
  the snapshot holds a current price for the market that is truthy (a number other than zero
  and NaN), a negative price, \<open>-5\<close> included, is rejected. When the current price is
  unknown (the snapshot has no entry for the market, or its price is zero or NaN), every price
  is accepted, negative or not.
\<close>

theorem validateAlert_negative_price:
  "(fst (validateAlert w m p) = Suspended \<longleftrightarrow> feed w = None)
   \<and> (getPrice w m = Suspended \<longrightarrow> fst (validateAlert w m p) = Suspended)
   \<and> (getPrice w m = Returned marketPrice \<longrightarrow>
        (truthy_num marketPrice \<and> js_lt p (Fin 0) \<longrightarrow>
           fst (validateAlert w m p) = Returned False)
      \<and> (\<not> truthy_num marketPrice \<longrightarrow> fst (validateAlert w m p) = Returned True))"
proof -
  have 1: "fst (validateAlert w m p) = Suspended \<longleftrightarrow> feed w = None"
    by (cases "feed w") (simp_all add: validateAlert_def getPrice_def)
  have 2: "getPrice w m = Suspended \<longrightarrow> fst (validateAlert w m p) = Suspended"
    by (simp add: validateAlert_def)
  have 3: "getPrice w m = Returned marketPrice \<longrightarrow>
        (truthy_num marketPrice \<and> js_lt p (Fin 0) \<longrightarrow>
           fst (validateAlert w m p) = Returned False)
      \<and> (\<not> truthy_num marketPrice \<longrightarrow> fst (validateAlert w m p) = Returned True)"
    by (simp add: validateAlert_def)
  from 1 2 3 show ?thesis by blast
qed

theorem validateAlert_negative_price_witness:
  "fst (validateAlert worldPriced ''BTC-USD'' (Fin (- 5))) = Returned False
   \<and> fst (validateAlert world0 ''BTC-USD'' (Fin (- 5))) = Returned True
   \<and> fst (validateAlert world0 ''BTC-USD'' (Fin 2000)) = Returned True
   \<and> fst (validateAlert (world0\<lparr>feed := None\<rparr>) ''BTC-USD'' (Fin (- 5))) = Suspended"
proof -
  have g: "getPrice worldPriced ''BTC-USD'' = Returned (Some (Fin 100))"
    "getPrice world0 ''BTC-USD'' = Returned None"
    "getPrice (world0\<lparr>feed := None\<rparr>) ''BTC-USD'' = Suspended"
    by (simp_all add: getPrice_def worldPriced_def worldKey_def world0_def)
  have a: "fst (validateAlert worldPriced ''BTC-USD'' (Fin (- 5))) = Returned False"
    using validateAlert_negative_price
            [where w = worldPriced and m = "''BTC-USD''" and p = "Fin (- 5)"
               and marketPrice = "Some (Fin 100)"] g(1)
    by simp
  have b: "fst (validateAlert world0 ''BTC-USD'' (Fin (- 5))) = Returned True"
    using validateAlert_negative_price
            [where w = world0 and m = "''BTC-USD''" and p = "Fin (- 5)" and marketPrice = None]
          g(2)
    by simp
  have c: "fst (validateAlert world0 ''BTC-USD'' (Fin 2000)) = Returned True"
    using validateAlert_negative_price
            [where w = world0 and m = "''BTC-USD''" and p = "Fin 2000" and marketPrice = None]
          g(2)
    by simp
  have d: "fst (validateAlert (world0\<lparr>feed := None\<rparr>) ''BTC-USD'' (Fin (- 5))) = Suspended"
    using validateAlert_negative_price
            [where w = "world0\<lparr>feed := None\<rparr>" and m = "''BTC-USD''" and p = "Fin (- 5)"]
          g(3)
    by blast
  from a b c d show ?thesis by simp
qed

text \<open>
  C3, counterexample to the claim as stated: with no current price for the market,
  \<open>validateAlert\<close> accepts the price \<open>-5\<close>.
\<close>

theorem validateAlert_minus_five_accepted:
  "fst (validateAlert world0 ''BTC-USD'' (Fin (- 5))) = Returned True"
  by (simp add: validateAlert_def getPrice_def world0_def)

subsection \<open>The gate\<close>

lemma serviceWorkerReady_gate:
  "promiseOfSync (serviceWorkerReady g ns w) = promiseOfSync w"
  "nextPromise (serviceWorkerReady g ns w) = nextPromise w"
proof -
  let ?v = "w\<lparr>readyCallbacks := removeAll g (readyCallbacks w)\<rparr>"
  have "sameService ?v (snd (markAlertsAsTriggered ?v ns))"
    by (rule markAlertsAsTriggered_frame(1))
  then have "promiseOfSync (snd (markAlertsAsTriggered ?v ns)) = promiseOfSync w"
            "nextPromise (snd (markAlertsAsTriggered ?v ns)) = nextPromise w"
    by (simp_all add: sameService_def)
  then show "promiseOfSync (serviceWorkerReady g ns w) = promiseOfSync w"
            "nextPromise (serviceWorkerReady g ns w) = nextPromise w"
    by (simp_all add: serviceWorkerReady_def split_beta split: outcome.splits)
qed

lemma onMessage_gate:
  "promiseOfSync (onMessage ev w) = promiseOfSync w"
  "nextPromise (onMessage ev w) = nextPromise w"
  using sameService_trans [OF effect_frame(1) markAlertsAsTriggered_frame(1),
          of w "Emit (TriggerPayload ev)" "[ev]"]
  by (simp_all add: onMessage_def sameService_def)

lemma sameService_gateAllocated: "sameService w w' \<Longrightarrow> gateAllocated w \<Longrightarrow> gateAllocated w'"
  by (simp add: sameService_def gateAllocated_def split: option.splits)

lemma reachable_gateAllocated: "reachable w \<Longrightarrow> gateAllocated w"
proof (induction rule: reachable.induct)
  case (start w)
  then show ?case by (simp add: gateAllocated_def)
next
  case (sync w)
  then show ?case by (simp add: gateAllocated_def syncTriggeredAlerts_def)
next
  case (ready w g notifications)
  then show ?case by (simp add: gateAllocated_def serviceWorkerReady_gate split: option.splits)
next
  case (message w ev)
  then show ?case by (simp add: gateAllocated_def onMessage_gate split: option.splits)
next
  case (mark w evs)
  then show ?case by (blast intro: sameService_gateAllocated markAlertsAsTriggered_frame(1))
next
  case (subscription w)
  then show ?case by (blast intro: sameService_gateAllocated getPushSubscription_frame(1))
next
  case (validate w m p)
  then show ?case by (blast intro: sameService_gateAllocated validateAlert_frame(1))
next
  case (toggle w m p currentPrice unsub status)
  then show ?case by (blast intro: sameService_gateAllocated toggleAlert_frame(1))
next
  case (subscribe w m p currentPrice)
  then show ?case by (blast intro: sameService_gateAllocated subscribe_frame(1))
next
  case (unsubscribe w m p)
  then show ?case by (blast intro: sameService_gateAllocated unsubscribe_frame(1))
next
  case (create w created arr currentPrice)
  then show ?case by (blast intro: sameService_gateAllocated createAlert_frame)
next
  case (move w moved newPrice currentPrice arr)
  then show ?case by (blast intro: sameService_gateAllocated moveAlert_frame)
next
  case (remove w removed marketAlerts)
  then show ?case by (blast intro: sameService_gateAllocated removeAlert_frame)
next
  case (surroundings w w')
  then show ?case by (simp add: gateAllocated_def split: option.splits)
qed

text \<open>
  C9, as amended. The gate is created anew by every call of \<open>syncTriggeredAlerts\<close>, the
  first and each later one: in every world the process can reach, the call assigns to
  \<open>_promiseOfSync\<close> a promise that did not exist before, different from the gate it
  replaces and not resolved. Nothing else assigns the gate: the callback that resolves it, the
  listener for messages and every other method leave \<open>_promiseOfSync\<close> as it was.
\<close>

theorem syncTriggeredAlerts_replaces_gate:
  assumes "reachable w"
  shows "promiseOfSync (syncTriggeredAlerts w) = Some (nextPromise w)
       \<and> promiseOfSync (syncTriggeredAlerts w) \<noteq> promiseOfSync w
       \<and> promises (syncTriggeredAlerts w) (nextPromise w) \<noteq> Fulfilled
       \<and> gateAllocated (syncTriggeredAlerts w)
       \<and> promiseOfSync (serviceWorkerReady g notifications w) = promiseOfSync w
       \<and> promiseOfSync (onMessage ev w) = promiseOfSync w
       \<and> promiseOfSync (snd (markAlertsAsTriggered w evs)) = promiseOfSync w
       \<and> promiseOfSync (snd (getPushSubscription w)) = promiseOfSync w
       \<and> promiseOfSync (snd (validateAlert w m p)) = promiseOfSync w
       \<and> promiseOfSync (snd (toggleAlert w m p currentPrice unsub status)) = promiseOfSync w
       \<and> promiseOfSync (snd (subscribe w m p currentPrice)) = promiseOfSync w
       \<and> promiseOfSync (snd (unsubscribe w m p)) = promiseOfSync w
       \<and> promiseOfSync (snd (createAlert w created arr currentPrice)) = promiseOfSync w
       \<and> promiseOfSync (snd (moveAlert w moved newPrice price' arr)) = promiseOfSync w
       \<and> promiseOfSync (snd (removeAlert w removed marketAlerts)) = promiseOfSync w"
proof -
  have a: "gateAllocated w" using assms by (rule reachable_gateAllocated)
  have same: "sameService w w' \<Longrightarrow> promiseOfSync w' = promiseOfSync w" for w'
    by (simp add: sameService_def)
  have 1: "promiseOfSync (syncTriggeredAlerts w) = Some (nextPromise w)"
    by (simp add: syncTriggeredAlerts_def)
  have 2: "promiseOfSync (syncTriggeredAlerts w) \<noteq> promiseOfSync w"
    using a by (auto simp add: 1 gateAllocated_def split: option.splits)
  have 3: "promises (syncTriggeredAlerts w) (nextPromise w) \<noteq> Fulfilled"
    by (simp add: syncTriggeredAlerts_def)
  have 4: "gateAllocated (syncTriggeredAlerts w)"
    by (simp add: gateAllocated_def syncTriggeredAlerts_def)
  show ?thesis
    using 1 2 3 4
    by (simp add: serviceWorkerReady_gate onMessage_gate
          same [OF markAlertsAsTriggered_frame(1)] same [OF getPushSubscription_frame(1)]
          same [OF validateAlert_frame(1)] same [OF toggleAlert_frame(1)]
          same [OF subscribe_frame(1)] same [OF unsubscribe_frame(1)]
          same [OF createAlert_frame] same [OF moveAlert_frame] same [OF removeAlert_frame])
qed

lemma ready_world0:
  "serviceWorkerReady 0 [] (syncTriggeredAlerts world0) =
     world0\<lparr>promiseOfSync := Some 0, promises := (\<lambda>g. Pending)(0 := Fulfilled),
            nextPromise := 1, messageListeners := 1\<rparr>"
  by (simp add: serviceWorkerReady_def syncTriggeredAlerts_def world0_def
        markAlertsAsTriggered_def forInOrder_def)

theorem syncTriggeredAlerts_replaces_gate_witness:
  "promiseOfSync (serviceWorkerReady 0 [] (syncTriggeredAlerts world0)) = Some 0
   \<and> promiseOfSync (syncTriggeredAlerts (serviceWorkerReady 0 [] (syncTriggeredAlerts world0)))
       = Some 1
   \<and> promiseOfSync (snd (createAlert (serviceWorkerReady 0 [] (syncTriggeredAlerts world0))
                            0 0 None)) = Some 0"
proof -
  have r: "reachable (serviceWorkerReady 0 [] (syncTriggeredAlerts world0))"
    by (intro reachable.ready reachable.sync reachable.start) (simp_all add: world0_def)
  show ?thesis
    using syncTriggeredAlerts_replaces_gate [OF r]
    unfolding ready_world0 by (simp add: world0_def)
qed

text \<open>
  C9, counterexample to the claim as stated: after a first sync whose gate has resolved (reads
  return), a second call of the entry point replaces the gate by a new pending one (reads
  wait again).
\<close>

theorem second_sync_resets_gate:
  "promiseOfSync (syncTriggeredAlerts world0) = Some 0
   \<and> getAlerts (serviceWorkerReady 0 [] (syncTriggeredAlerts world0)) ''ETH-USD'' = Returned []
   \<and> promiseOfSync (syncTriggeredAlerts (serviceWorkerReady 0 [] (syncTriggeredAlerts world0)))
       = Some 1
   \<and> getAlerts (syncTriggeredAlerts (serviceWorkerReady 0 [] (syncTriggeredAlerts world0)))
       ''ETH-USD'' = Suspended"
  unfolding ready_world0
  by (simp add: syncTriggeredAlerts_def getAlerts_def getAlerts_call_def
        wsGetAlerts_def world0_def)

lemma markAlertsAsTriggered_fst:
  "fst (markAlertsAsTriggered w evs) =
     (case groupByMarket [] evs of Inl err \<Rightarrow> Thrown err | Inr markets \<Rightarrow> Returned ())"
  by (simp add: markAlertsAsTriggered_def split: sum.splits)

lemma serviceWorkerReady_after_sync:
  assumes "hasServiceWorker w"
  shows "promises (serviceWorkerReady (nextPromise w) ns (syncTriggeredAlerts w)) (nextPromise w) =
           (case groupByMarket [] ns of Inl err \<Rightarrow> Pending | Inr markets \<Rightarrow> Fulfilled)"
proof -
  let ?g = "nextPromise w"
  let ?v = "(syncTriggeredAlerts w)\<lparr>readyCallbacks := removeAll ?g (readyCallbacks (syncTriggeredAlerts w))\<rparr>"
  have "sameService ?v (snd (markAlertsAsTriggered ?v ns))"
    by (rule markAlertsAsTriggered_frame(1))
  then have p: "promises (snd (markAlertsAsTriggered ?v ns)) = promises ?v"
    by (simp add: sameService_def)
  have pv: "promises ?v ?g = Pending"
    using assms by (simp add: syncTriggeredAlerts_def)
  have mem: "?g \<in> set (readyCallbacks (syncTriggeredAlerts w))"
    using assms by (simp add: syncTriggeredAlerts_def)
  show ?thesis
    using mem p pv markAlertsAsTriggered_fst [of ?v ns]
    by (simp add: serviceWorkerReady_def split_beta split: sum.splits outcome.splits)
qed

text \<open>
  C1, as amended. A call of \<open>getAlerts\<close> made when no sync has been started in the
  process finds no gate and delegates to the store at once. A call made after a sync was
  started awaits the gate it found: in any later world it is suspended exactly while that gate
  is pending, and it has returned (with what the store then holds) exactly when that gate has
  resolved. Right after \<open>syncTriggeredAlerts\<close> a read is suspended; once the service
  worker is ready it returns if the notifications could be marked, and stays suspended if
  marking them threw.
\<close>

theorem getAlerts_waits_for_gate:
  "(promiseOfSync w = None \<longrightarrow>
      getAlerts_resume (getAlerts_call w) w' m = Returned (wsGetAlerts w' m))
   \<and> (promiseOfSync w = Some g \<longrightarrow>
        (getAlerts_resume (getAlerts_call w) w' m = Suspended \<longleftrightarrow> promises w' g = Pending)
      \<and> (getAlerts_resume (getAlerts_call w) w' m = Returned xs
           \<longleftrightarrow> promises w' g = Fulfilled \<and> xs = wsGetAlerts w' m))
   \<and> (hasServiceWorker w \<longrightarrow> getAlerts (syncTriggeredAlerts w) m = Suspended)
   \<and> (hasServiceWorker w \<longrightarrow>
        getAlerts_resume (getAlerts_call (syncTriggeredAlerts w))
          (serviceWorkerReady (nextPromise w) ns (syncTriggeredAlerts w)) m =
        (case groupByMarket [] ns of
           Inl err \<Rightarrow> Suspended
         | Inr markets \<Rightarrow>
             Returned (wsGetAlerts
               (serviceWorkerReady (nextPromise w) ns (syncTriggeredAlerts w)) m)))"
proof -
  have 1: "promiseOfSync w = None \<longrightarrow>
      getAlerts_resume (getAlerts_call w) w' m = Returned (wsGetAlerts w' m)"
    by (simp add: getAlerts_call_def)
  have 2: "promiseOfSync w = Some g \<longrightarrow>
        (getAlerts_resume (getAlerts_call w) w' m = Suspended \<longleftrightarrow> promises w' g = Pending)
      \<and> (getAlerts_resume (getAlerts_call w) w' m = Returned xs
           \<longleftrightarrow> promises w' g = Fulfilled \<and> xs = wsGetAlerts w' m)"
    by (auto simp add: getAlerts_call_def split: promise_state.splits)
  have 3: "hasServiceWorker w \<longrightarrow> getAlerts (syncTriggeredAlerts w) m = Suspended"
    by (simp add: getAlerts_def getAlerts_call_def syncTriggeredAlerts_def)
  have c: "getAlerts_call (syncTriggeredAlerts w) = AwaitGate (nextPromise w)"
    by (simp add: getAlerts_call_def syncTriggeredAlerts_def)
  have 4: "hasServiceWorker w \<longrightarrow>
        getAlerts_resume (getAlerts_call (syncTriggeredAlerts w))
          (serviceWorkerReady (nextPromise w) ns (syncTriggeredAlerts w)) m =
        (case groupByMarket [] ns of
           Inl err \<Rightarrow> Suspended
         | Inr markets \<Rightarrow>
             Returned (wsGetAlerts
               (serviceWorkerReady (nextPromise w) ns (syncTriggeredAlerts w)) m))"
    by (simp add: c serviceWorkerReady_after_sync split: sum.splits)
  from 1 2 3 4 show ?thesis by blast
qed

lemma ready_worldStored:
  "serviceWorkerReady 0 [sampleEvent] (syncTriggeredAlerts worldStored) =
     (wsSaveAlerts ''ETH-USD'' [sampleAlert\<lparr>triggered := True\<rparr>] worldStored)
       \<lparr>promiseOfSync := Some 0, promises := (\<lambda>g. Pending)(0 := Fulfilled),
        nextPromise := 1, messageListeners := 1\<rparr>"
  by (simp add: serviceWorkerReady_def syncTriggeredAlerts_def worldStored_def world0_def
        markAlertsAsTriggered_def forInOrder_def sampleEvent_def groupStep_def
        objectPrototypeKeys_def isArrayIndex_def wsGetAlerts_def wsSaveAlerts_def effect_def
        sampleAlert_def js_strict_eq_def)

theorem getAlerts_waits_for_gate_witness:
  "getAlerts_resume (getAlerts_call world0) worldStored ''ETH-USD'' = Returned [sampleAlert]
   \<and> getAlerts (syncTriggeredAlerts worldStored) ''ETH-USD'' = Suspended
   \<and> getAlerts_resume (getAlerts_call (syncTriggeredAlerts worldStored))
        (serviceWorkerReady 0 [sampleEvent] (syncTriggeredAlerts worldStored)) ''ETH-USD''
       = Returned [sampleAlert\<lparr>triggered := True\<rparr>]"
proof -
  have g: "groupByMarket [] [sampleEvent] = Inr [(''ETH-USD'', [Fin 2000])]"
    by (simp add: sampleEvent_def groupStep_def objectPrototypeKeys_def)
  have n: "nextPromise worldStored = 0" "hasServiceWorker worldStored"
          "promiseOfSync world0 = None"
    by (simp_all add: worldStored_def world0_def)
  have s: "wsGetAlerts (serviceWorkerReady 0 [sampleEvent] (syncTriggeredAlerts worldStored))
             ''ETH-USD'' = [sampleAlert\<lparr>triggered := True\<rparr>]"
    unfolding ready_worldStored by (simp add: wsGetAlerts_def wsSaveAlerts_def effect_def)
  have t: "wsGetAlerts worldStored ''ETH-USD'' = [sampleAlert]"
    by (simp add: wsGetAlerts_def worldStored_def)
  have a: "getAlerts_resume (getAlerts_call world0) worldStored ''ETH-USD'' = Returned [sampleAlert]"
    using getAlerts_waits_for_gate [where w = world0 and w' = worldStored and m = "''ETH-USD''"]
          n(3) t
    by simp
  have b: "getAlerts (syncTriggeredAlerts worldStored) ''ETH-USD'' = Suspended"
    using getAlerts_waits_for_gate [where w = worldStored and m = "''ETH-USD''"] n(2)
    by blast
  have "getAlerts_resume (getAlerts_call (syncTriggeredAlerts worldStored))
          (serviceWorkerReady (nextPromise worldStored) [sampleEvent]
             (syncTriggeredAlerts worldStored)) ''ETH-USD'' =
        (case groupByMarket [] [sampleEvent] of
           Inl err \<Rightarrow> Suspended
         | Inr markets \<Rightarrow>
             Returned (wsGetAlerts
               (serviceWorkerReady (nextPromise worldStored) [sampleEvent]
                  (syncTriggeredAlerts worldStored)) ''ETH-USD''))"
    using getAlerts_waits_for_gate [where w = worldStored and m = "''ETH-USD''"
             and ns = "[sampleEvent]"] n(2)
    by blast
  then have c: "getAlerts_resume (getAlerts_call (syncTriggeredAlerts worldStored))
        (serviceWorkerReady 0 [sampleEvent] (syncTriggeredAlerts worldStored)) ''ETH-USD''
       = Returned [sampleAlert\<lparr>triggered := True\<rparr>]"
    unfolding g n(1) by (simp add: s)
  from a b c show ?thesis by simp
qed

text \<open>
  C1, counterexample to the claim as stated: in a process where no sync was started,
  \<open>getAlerts\<close> returns the stored alert as not triggered, although there is no resolved
  gate and the notification that the sync would recover marks that alert as triggered.
\<close>

theorem getAlerts_before_sync_returns_stale:
  "promiseOfSync worldStored = None
   \<and> getAlerts worldStored ''ETH-USD'' = Returned [sampleAlert]
   \<and> triggered sampleAlert = False
   \<and> getAlerts (serviceWorkerReady 0 [sampleEvent] (syncTriggeredAlerts worldStored)) ''ETH-USD''
       = Returned [sampleAlert\<lparr>triggered := True\<rparr>]"
  unfolding ready_worldStored
  by (simp add: getAlerts_def getAlerts_call_def wsGetAlerts_def wsSaveAlerts_def effect_def
        worldStored_def world0_def sampleAlert_def)

subsection \<open>The cases of toggleAlert\<close>

lemma toggleAlert_no_subscription:
  "fst (getPushSubscription w) = Returned None \<Longrightarrow>
   toggleAlert w m p c u s = (Returned None, w)"
  by (simp add: toggleAlert_def split_beta getPushSubscription_None)

lemma toggleAlert_rejected:
  "fst (getPushSubscription w) = Returned (Some sub) \<Longrightarrow>
   fst (validateAlert (snd (getPushSubscription w)) m p) = Returned False \<Longrightarrow>
   toggleAlert w m p c u s =
     (Returned None, snd (validateAlert (snd (getPushSubscription w)) m p))"
  by (simp add: toggleAlert_def split_beta)

lemma toggleAlert_Thrown:
  "fst (toggleAlert w m p c u s) = Thrown e \<longleftrightarrow> fst (getPushSubscription w) = Thrown e"
  using validateAlert_not_Thrown [of "snd (getPushSubscription w)" m p]
  by (auto simp add: toggleAlert_def split_beta
        split: outcome.splits option.splits bool.splits sum.splits)

lemma toggleAlert_undefined:
  assumes "\<not> truthy_str (publicVapidKey w)
           \<or> (fst (getPushSubscription w) = Returned (Some sub)
              \<and> fst (validateAlert (snd (getPushSubscription w)) m p) = Returned False)"
  shows "fst (toggleAlert w m p c u s) = Returned None"
    and "\<exists>logged. trace (snd (toggleAlert w m p c u s)) = trace w @ logged
           \<and> (logged = [] \<or> (\<exists>marketPrice. logged = [ConsoleError p marketPrice]))"
proof -
  let ?w1 = "snd (getPushSubscription w)"
  consider (nokey) "\<not> truthy_str (publicVapidKey w)"
    | (rejected) "fst (getPushSubscription w) = Returned (Some sub)"
        "fst (validateAlert ?w1 m p) = Returned False"
    using assms by blast
  then have "fst (toggleAlert w m p c u s) = Returned None
     \<and> (\<exists>logged. trace (snd (toggleAlert w m p c u s)) = trace w @ logged
           \<and> (logged = [] \<or> (\<exists>marketPrice. logged = [ConsoleError p marketPrice])))"
  proof cases
    case nokey
    then have "toggleAlert w m p c u s = (Returned None, w)"
      by (simp add: toggleAlert_no_subscription getPushSubscription_no_key)
    then show ?thesis by simp
  next
    case rejected
    obtain mp where "snd (validateAlert ?w1 m p) = effect (ConsoleError p mp) ?w1"
      using validateAlert_False [OF rejected(2)] by blast
    then have "trace (snd (validateAlert ?w1 m p)) = trace w @ [ConsoleError p mp]"
      by (simp add: effect_frame getPushSubscription_frame)
    then show ?thesis
      by (simp add: toggleAlert_rejected [OF rejected])
  qed
  then show "fst (toggleAlert w m p c u s) = Returned None"
    and "\<exists>logged. trace (snd (toggleAlert w m p c u s)) = trace w @ logged
           \<and> (logged = [] \<or> (\<exists>marketPrice. logged = [ConsoleError p marketPrice]))"
    by blast+
qed

lemma subscribe_undefined:
  "fst (toggleAlert w m p c None None) = Returned None \<Longrightarrow>
   subscribe w m p c =
     (Thrown (TypeError ''Cannot read properties of undefined (reading error)''),
      snd (toggleAlert w m p c None None))"
  by (simp add: subscribe_def split_beta)

lemma unsubscribe_undefined:
  "fst (toggleAlert w m p None (Some True) None) = Returned None \<Longrightarrow>
   unsubscribe w m p =
     (Thrown (TypeError ''Cannot read properties of undefined (reading alert)''),
      snd (toggleAlert w m p None (Some True) None))"
  by (simp add: unsubscribe_def split_beta)

lemma createAlert_Thrown:
  assumes "fst (subscribe (w\<lparr>arrayObjs := (arrayObjs w)(arr := arrayObjs w arr @ [created])\<rparr>)
                  (market (alertObjs w created)) (price (alertObjs w created)) c) = Thrown err"
  shows "fst (createAlert w created arr c) = Returned ()"
    and "sameService w (snd (createAlert w created arr c))"
    and "alertObjs (snd (createAlert w created arr c)) = alertObjs w"
    and "arrayObjs (snd (createAlert w created arr c)) =
           (arrayObjs w)(arr := arrayObjs w arr @ [created])"
    and "store (snd (createAlert w created arr c)) =
           (store w)(market (alertObjs w created) :=
              map (alertObjs w) (arrayObjs w arr @ [created]))"
    and "trace (snd (createAlert w created arr c)) =
           trace (snd (subscribe (w\<lparr>arrayObjs := (arrayObjs w)(arr := arrayObjs w arr @ [created])\<rparr>)
                  (market (alertObjs w created)) (price (alertObjs w created)) c))
           @ [Notice (RegistrationFailure (message err)),
              SaveAlerts (market (alertObjs w created))
                (map (alertObjs w) (arrayObjs w arr @ [created])),
              Emit (AddEvent (price (alertObjs w created)) (market (alertObjs w created))
                      (timestamp (alertObjs w created)))]"
proof -
  let ?w0 = "w\<lparr>arrayObjs := (arrayObjs w)(arr := arrayObjs w arr @ [created])\<rparr>"
  let ?s = "subscribe ?w0 (market (alertObjs w created)) (price (alertObjs w created)) c"
  have o: "sameObjects ?w0 (snd ?s)" by (rule subscribe_frame(2))
  then have oo: "alertObjs (snd ?s) = alertObjs w"
    "arrayObjs (snd ?s) = (arrayObjs w)(arr := arrayObjs w arr @ [created])"
    "store (snd ?s) = store w"
    by (simp_all add: sameObjects_def)
  show "fst (createAlert w created arr c) = Returned ()"
    using assms by (simp add: createAlert_def Let_def split_beta)
  show "sameService w (snd (createAlert w created arr c))" by (rule createAlert_frame)
  show "alertObjs (snd (createAlert w created arr c)) = alertObjs w"
    using assms oo by (simp add: createAlert_def Let_def split_beta effect_def wsSaveAlerts_def)
  show "arrayObjs (snd (createAlert w created arr c)) =
           (arrayObjs w)(arr := arrayObjs w arr @ [created])"
    using assms oo by (simp add: createAlert_def Let_def split_beta effect_def wsSaveAlerts_def)
  show "store (snd (createAlert w created arr c)) =
           (store w)(market (alertObjs w created) :=
              map (alertObjs w) (arrayObjs w arr @ [created]))"
    using assms oo
    by (simp add: createAlert_def Let_def split_beta effect_def wsSaveAlerts_def deref_def)
  show "trace (snd (createAlert w created arr c)) =
           trace (snd ?s)
           @ [Notice (RegistrationFailure (message err)),
              SaveAlerts (market (alertObjs w created))
                (map (alertObjs w) (arrayObjs w arr @ [created])),
              Emit (AddEvent (price (alertObjs w created)) (market (alertObjs w created))
                      (timestamp (alertObjs w created)))]"
    using assms oo
    by (simp add: createAlert_def Let_def split_beta effect_def wsSaveAlerts_def deref_def)
qed

subsection \<open>Creating an alert when the registration resolves to nothing\<close>

lemma newEffects_append: "trace w' = trace w @ l \<Longrightarrow> newEffects w w' = l"
  by (simp add: newEffects_def)

lemma createAlert_undefined:
  assumes "\<not> truthy_str (publicVapidKey w)
           \<or> (fst (getPushSubscription w) = Returned (Some sub)
              \<and> fst (validateAlert (snd (getPushSubscription w))
                      (market (alertObjs w created)) (price (alertObjs w created)))
                  = Returned False)"
    and "w' = snd (createAlert w created arr c)"
  shows "fst (toggleAlert w (market (alertObjs w created)) (price (alertObjs w created))
                c None None) = Returned None"
    and "fst (subscribe w (market (alertObjs w created)) (price (alertObjs w created)) c)
           = Thrown (TypeError ''Cannot read properties of undefined (reading error)'')"
    and "fst (createAlert w created arr c) = Returned ()"
    and "\<exists>logged.
           newEffects w w' =
             logged @
             [Notice (RegistrationFailure
                        ''Cannot read properties of undefined (reading error)''),
              SaveAlerts (market (alertObjs w created))
                (map (alertObjs w) (arrayObjs w arr @ [created])),
              Emit (AddEvent (price (alertObjs w created)) (market (alertObjs w created))
                      (timestamp (alertObjs w created)))]
           \<and> (logged = []
               \<or> (\<exists>marketPrice. logged = [ConsoleError (price (alertObjs w created)) marketPrice]))"
    and "alertObjs w' = alertObjs w"
    and "arrayObjs w' = (arrayObjs w)(arr := arrayObjs w arr @ [created])"
    and "store w' = (store w)(market (alertObjs w created) :=
                               map (alertObjs w) (arrayObjs w arr @ [created]))"
proof -
  let ?m = "market (alertObjs w created)" and ?p = "price (alertObjs w created)"
  let ?w0 = "w\<lparr>arrayObjs := (arrayObjs w)(arr := arrayObjs w arr @ [created])\<rparr>"
  let ?TE = "TypeError ''Cannot read properties of undefined (reading error)''"
  show t: "fst (toggleAlert w ?m ?p c None None) = Returned None"
    using assms(1) by (rule toggleAlert_undefined(1))
  show "fst (subscribe w ?m ?p c) = Thrown ?TE"
    using t by (simp add: subscribe_undefined)
  have assms0: "\<not> truthy_str (publicVapidKey ?w0)
           \<or> (fst (getPushSubscription ?w0) = Returned (Some sub)
              \<and> fst (validateAlert (snd (getPushSubscription ?w0)) ?m ?p) = Returned False)"
    using assms(1) by (simp add: getPushSubscription_objects validateAlert_objects)
  have t0: "fst (toggleAlert ?w0 ?m ?p c None None) = Returned None"
    using assms0 by (rule toggleAlert_undefined(1))
  obtain logged where l:
    "trace (snd (toggleAlert ?w0 ?m ?p c None None)) = trace w @ logged"
    "logged = [] \<or> (\<exists>marketPrice. logged = [ConsoleError ?p marketPrice])"
    using toggleAlert_undefined(2) [OF assms0, of c None None] by auto
  have s0: "subscribe ?w0 ?m ?p c = (Thrown ?TE, snd (toggleAlert ?w0 ?m ?p c None None))"
    using t0 by (rule subscribe_undefined)
  then have th: "fst (subscribe ?w0 ?m ?p c) = Thrown ?TE" by simp
  have tr: "trace w' =
      trace w @ logged @
        [Notice (RegistrationFailure ''Cannot read properties of undefined (reading error)''),
         SaveAlerts ?m (map (alertObjs w) (arrayObjs w arr @ [created])),
         Emit (AddEvent ?p ?m (timestamp (alertObjs w created)))]"
    unfolding assms(2) using createAlert_Thrown(6) [OF th] l(1) s0 by simp
  show "fst (createAlert w created arr c) = Returned ()"
    by (rule createAlert_Thrown(1) [OF th])
  show "\<exists>logged.
           newEffects w w' =
             logged @
             [Notice (RegistrationFailure
                        ''Cannot read properties of undefined (reading error)''),
              SaveAlerts ?m (map (alertObjs w) (arrayObjs w arr @ [created])),
              Emit (AddEvent ?p ?m (timestamp (alertObjs w created)))]
           \<and> (logged = [] \<or> (\<exists>marketPrice. logged = [ConsoleError ?p marketPrice]))"
    using newEffects_append [OF tr] l(2) by blast
  show "alertObjs w' = alertObjs w"
    unfolding assms(2) by (rule createAlert_Thrown(3) [OF th])
  show "arrayObjs w' = (arrayObjs w)(arr := arrayObjs w arr @ [created])"
    unfolding assms(2) by (rule createAlert_Thrown(4) [OF th])
  show "store w' = (store w)(?m := map (alertObjs w) (arrayObjs w arr @ [created]))"
    unfolding assms(2) by (rule createAlert_Thrown(5) [OF th])
qed

text \<open>
  C10. When no application key is configured, or when a subscription is there and validation
  rejects the price, \<open>toggleAlert\<close> resolves to \<open>undefined\<close>; \<open>subscribe\<close> then
  throws a TypeError on reading \<open>data.error\<close>; \<open>createAlert\<close> catches it and shows
  the notice \<open>alert-registration-failure\<close> of type error with that message, then saves
  the list with the new entry and emits the event. No request is sent and the alert object is
  not written.
\<close>

theorem createAlert_reports_undefined_registration:
  assumes "\<not> truthy_str (publicVapidKey w)
           \<or> (fst (getPushSubscription w) = Returned (Some sub)
              \<and> fst (validateAlert (snd (getPushSubscription w))
                      (market (alertObjs w created)) (price (alertObjs w created)))
                  = Returned False)"
  shows "fst (toggleAlert w (market (alertObjs w created)) (price (alertObjs w created))
                c unsub status) = Returned None
       \<and> fst (subscribe w (market (alertObjs w created)) (price (alertObjs w created)) c)
           = Thrown (TypeError ''Cannot read properties of undefined (reading error)'')
       \<and> fst (createAlert w created arr c) = Returned ()
       \<and> (\<exists>logged.
             newEffects w (snd (createAlert w created arr c)) =
               logged @
               [Notice (RegistrationFailure
                          ''Cannot read properties of undefined (reading error)''),
                SaveAlerts (market (alertObjs w created))
                  (map (alertObjs w) (arrayObjs w arr @ [created])),
                Emit (AddEvent (price (alertObjs w created)) (market (alertObjs w created))
                        (timestamp (alertObjs w created)))]
             \<and> filter isFetch logged = [])
       \<and> alertObjs (snd (createAlert w created arr c)) = alertObjs w"
proof -
  define w' where "w' = snd (createAlert w created arr c)"
  note u = createAlert_undefined [OF assms w'_def]
  obtain logged where l:
    "newEffects w w' =
       logged @
       [Notice (RegistrationFailure ''Cannot read properties of undefined (reading error)''),
        SaveAlerts (market (alertObjs w created))
          (map (alertObjs w) (arrayObjs w arr @ [created])),
        Emit (AddEvent (price (alertObjs w created)) (market (alertObjs w created))
                (timestamp (alertObjs w created)))]"
    "logged = []
     \<or> (\<exists>marketPrice. logged = [ConsoleError (price (alertObjs w created)) marketPrice])"
    using u(4) by blast
  have "filter isFetch logged = []"
    using l(2) by (auto simp add: isFetch_def)
  then show ?thesis
    using toggleAlert_undefined(1) [OF assms] u(2) u(3) u(5) l(1) unfolding w'_def by blast
qed

lemma createAlert_world0:
  "createAlert world0 0 0 None =
     (Returned (),
      world0\<lparr>arrayObjs := (\<lambda>r. [])(0 := [0]),
             store := (\<lambda>m. [])(''ETH-USD'' := [sampleAlert]),
             trace := [Notice (RegistrationFailure
                                 ''Cannot read properties of undefined (reading error)''),
                       SaveAlerts ''ETH-USD'' [sampleAlert],
                       Emit (AddEvent (Fin 2000) ''ETH-USD'' 0)]\<rparr>)"
  by (simp add: createAlert_def subscribe_def toggleAlert_def getPushSubscription_def
        world0_def sampleAlert_def wsSaveAlerts_def effect_def deref_def)

theorem createAlert_reports_undefined_registration_witness:
  "fst (subscribe world0 ''ETH-USD'' (Fin 2000) None)
     = Thrown (TypeError ''Cannot read properties of undefined (reading error)'')
   \<and> fst (createAlert world0 0 0 None) = Returned ()
   \<and> fst (subscribe worldPriced ''ETH-USD'' (Fin 2000) None)
     = Thrown (TypeError ''Cannot read properties of undefined (reading error)'')
   \<and> fst (createAlert worldPriced 0 0 None) = Returned ()"
proof -
  have a: "alertObjs world0 0 = sampleAlert" "alertObjs worldPriced 0 = sampleAlert"
    "market sampleAlert = ''ETH-USD''" "price sampleAlert = Fin 2000"
    by (simp_all add: world0_def worldPriced_def worldKey_def sampleAlert_def)
  have h0: "\<not> truthy_str (publicVapidKey world0)" by (simp add: world0_def)
  have g: "getPushSubscription worldPriced =
             (Returned (Some (PushSubscription ''endpoint'')),
              worldPriced\<lparr>pushSubscription := Some (PushSubscription ''endpoint'')\<rparr>)"
    by (simp add: getPushSubscription_def worldPriced_def worldKey_def world0_def)
  have v: "fst (validateAlert (worldPriced\<lparr>pushSubscription := Some (PushSubscription ''endpoint'')\<rparr>)
             ''ETH-USD'' (Fin 2000)) = Returned False"
    by (simp add: validateAlert_def getPrice_def percentChangeToAlert_def js_gt_def
          worldPriced_def worldKey_def world0_def)
  have h1: "\<not> truthy_str (publicVapidKey worldPriced)
           \<or> (fst (getPushSubscription worldPriced) = Returned (Some (PushSubscription ''endpoint''))
              \<and> fst (validateAlert (snd (getPushSubscription worldPriced))
                      (market (alertObjs worldPriced 0)) (price (alertObjs worldPriced 0)))
                  = Returned False)"
    by (simp add: g v a)
  show ?thesis
    using createAlert_reports_undefined_registration
            [where w = world0 and created = 0 and c = None and arr = 0, OF disjI1 [OF h0]]
          createAlert_reports_undefined_registration [OF h1, where c = None and arr = 0]
    by (simp add: a)
qed

text \<open>
  C5, the code at the failing input: creating the alert on \<open>ETH-USD\<close> at \<open>2000\<close>
  with no key configured. No request is sent, \<open>active\<close> stays false and the list is
  saved with the new entry, but the first effect is the error notice: the absence of the key is
  not silent.
\<close>

theorem createAlert_without_key_shows_error:
  "publicVapidKey world0 = None
   \<and> alertObjs world0 0 = \<lparr>market = ''ETH-USD'', price = Fin 2000, timestamp = 0,
                            active = False, triggered = False\<rparr>
   \<and> fst (createAlert world0 0 0 None) = Returned ()
   \<and> trace (snd (createAlert world0 0 0 None)) =
       [Notice (RegistrationFailure ''Cannot read properties of undefined (reading error)''),
        SaveAlerts ''ETH-USD'' [sampleAlert],
        Emit (AddEvent (Fin 2000) ''ETH-USD'' 0)]
   \<and> active (alertObjs (snd (createAlert world0 0 0 None)) 0) = False"
  unfolding createAlert_world0 by (simp add: world0_def sampleAlert_def)

subsection \<open>Moving an alert\<close>

lemma moveAlert_rejected:
  assumes "fst (getPushSubscription w) = Returned (Some sub)"
    and "fst (validateAlert (snd (getPushSubscription w)) (market (alertObjs w moved)) newPrice)
           = Returned False"
  shows "moveAlert w moved newPrice currentPrice arr =
           (Returned (),
            snd (validateAlert (snd (getPushSubscription w)) (market (alertObjs w moved)) newPrice))"
proof -
  have "alertObjs (snd (getPushSubscription w)) = alertObjs w"
    using getPushSubscription_frame(2) [of w] by (simp add: sameObjects_def)
  then show ?thesis
    using assms by (simp add: moveAlert_def split_beta)
qed

lemma fetchJson_accepts:
  "(\<exists>data. fst (fetchJson req w) = Inr data) \<longleftrightarrow>
   (\<exists>status data. backend w req = HttpResponse status (JsonObject data)
       \<and> \<not> truthy_str (resp_error data))"
  by (auto simp add: fetchJson_def split: fetch_result.splits json_body.splits)

lemma fetchJson_fst_cong:
  "backend v = backend w \<Longrightarrow> fst (fetchJson req v) = fst (fetchJson req w)"
  by (simp add: fetchJson_def split: fetch_result.splits json_body.splits)

lemma moveAlert_accepted:
  assumes sub: "fst (getPushSubscription w) = Returned (Some sub)"
    and val: "fst (validateAlert (snd (getPushSubscription w)) (market (alertObjs w moved)) newPrice)
           = Returned True"
    and req: "req = \<lparr>req_subscription = sub, req_origin = locationHref w,
                    req_market = market (alertObjs w moved),
                    req_price = price (alertObjs w moved),
                    req_currentPrice = Some currentPrice,
                    req_unsubscribe = None, req_status = None,
                    req_newPrice = Some newPrice\<rparr>"
    and w': "w' = snd (moveAlert w moved newPrice currentPrice arr)"
    and ok: "ok = (\<exists>status data. backend w req = HttpResponse status (JsonObject data)
                     \<and> \<not> truthy_str (resp_error data))"
  shows "fst (moveAlert w moved newPrice currentPrice arr) = Returned ()"
    and "alertObjs w' = (alertObjs w)
           (moved := (alertObjs w moved)\<lparr>triggered := False, active := ok, price := newPrice\<rparr>)"
    and "arrayObjs w' = arrayObjs w"
    and "store w' = (store w)(market (alertObjs w moved) := deref w' arr)"
    and "\<exists>handled. trace w' = trace w @ [Fetch req] @ handled @
           [Emit (MoveEvent (price (alertObjs w moved)) (market (alertObjs w moved)) newPrice),
            SaveAlerts (market (alertObjs w moved)) (deref w' arr)]
          \<and> (if ok then handled = [] else \<exists>msg. handled = [HandleFetchError msg])"
proof -
  let ?w1 = "snd (getPushSubscription w)"
  have f1: "alertObjs ?w1 = alertObjs w" "arrayObjs ?w1 = arrayObjs w" "store ?w1 = store w"
    "locationHref ?w1 = locationHref w" "backend ?w1 = backend w" "trace ?w1 = trace w"
    using getPushSubscription_frame [of w] by (simp_all add: sameObjects_def sameService_def)
  have v: "validateAlert ?w1 (market (alertObjs w moved)) newPrice = (Returned True, ?w1)"
    using val validateAlert_True [OF val] by (simp add: prod_eq_iff)
  have okf: "ok = (\<exists>data. fst (fetchJson req ?w1) = Inr data)"
    unfolding ok fetchJson_accepts [symmetric]
    by (simp add: fetchJson_fst_cong [OF f1(5)])
  have sf: "snd (fetchJson req ?w1) = effect (Fetch req) ?w1"
    by (rule fetchJson_frame(4))
  have m: "moveAlert w moved newPrice currentPrice arr =
      (let r = fst (fetchJson req ?w1); w3 = effect (Fetch req) ?w1;
           w4 = (case r of Inr json \<Rightarrow> w3 | Inl err \<Rightarrow> handleFetchError err w3);
           isActive = (case r of Inr json \<Rightarrow> True | Inl err \<Rightarrow> False);
           w5 = effect (Emit (MoveEvent (price (alertObjs w4 moved))
                                        (market (alertObjs w4 moved)) newPrice)) w4;
           w6 = w5\<lparr>alertObjs := (alertObjs w5)
                   (moved := (alertObjs w5 moved)
                      \<lparr>triggered := False, active := isActive, price := newPrice\<rparr>)\<rparr>
       in (Returned (), wsSaveAlerts (market (alertObjs w6 moved)) (deref w6 arr) w6))"
    using sub v by (simp add: moveAlert_def split_beta f1 req [symmetric] sf Let_def)
  show "fst (moveAlert w moved newPrice currentPrice arr) = Returned ()"
    by (simp add: m Let_def)
  show a: "alertObjs w' = (alertObjs w)
           (moved := (alertObjs w moved)\<lparr>triggered := False, active := ok, price := newPrice\<rparr>)"
    unfolding w' m okf
    by (simp add: Let_def wsSaveAlerts_def effect_def handleFetchError_def f1 split: sum.splits)
  show b: "arrayObjs w' = arrayObjs w"
    unfolding w' m
    by (simp add: Let_def wsSaveAlerts_def effect_def handleFetchError_def f1 split: sum.splits)
  have d: "deref w' arr = map ((alertObjs w)
           (moved := (alertObjs w moved)\<lparr>triggered := False, active := ok, price := newPrice\<rparr>))
           (arrayObjs w arr)"
    by (simp add: deref_def a b)
  show "store w' = (store w)(market (alertObjs w moved) := deref w' arr)"
    unfolding d unfolding w' m okf
    by (simp add: Let_def wsSaveAlerts_def effect_def handleFetchError_def f1 deref_def
          split: sum.splits)
  show "\<exists>handled. trace w' = trace w @ [Fetch req] @ handled @
           [Emit (MoveEvent (price (alertObjs w moved)) (market (alertObjs w moved)) newPrice),
            SaveAlerts (market (alertObjs w moved)) (deref w' arr)]
          \<and> (if ok then handled = [] else \<exists>msg. handled = [HandleFetchError msg])"
    unfolding d unfolding w' m okf
    by (simp add: Let_def wsSaveAlerts_def effect_def handleFetchError_def f1 deref_def
          split: sum.splits)
qed

text \<open>
  C6. A call of \<open>moveAlert\<close> that obtains a subscription and whose new price passes
  validation completes, and then: the record has \<open>price = newPrice\<close> and
  \<open>triggered = false\<close>, whatever the backend answered; \<open>active\<close> is true exactly when
  the answer was an object without an error, false on every failure; its other fields, the
  other objects and the array are untouched; the store holds for the market the whole array,
  read with the record as written; and the effects are, in this order, the request, the
  report of a failure if there was one, the event, which carries the price the record had
  before the call together with \<open>newPrice\<close>, and the save.
\<close>

theorem moveAlert_sets_price_and_persists:
  assumes "fst (getPushSubscription w) = Returned (Some sub)"
    and "fst (validateAlert (snd (getPushSubscription w)) (market (alertObjs w moved)) newPrice)
           = Returned True"
    and "req = \<lparr>req_subscription = sub, req_origin = locationHref w,
                 req_market = market (alertObjs w moved),
                 req_price = price (alertObjs w moved),
                 req_currentPrice = Some currentPrice,
                 req_unsubscribe = None, req_status = None,
                 req_newPrice = Some newPrice\<rparr>"
    and "w' = snd (moveAlert w moved newPrice currentPrice arr)"
  shows "fst (moveAlert w moved newPrice currentPrice arr) = Returned ()
       \<and> price (alertObjs w' moved) = newPrice
       \<and> triggered (alertObjs w' moved) = False
       \<and> (active (alertObjs w' moved) \<longleftrightarrow>
            (\<exists>status data. backend w req = HttpResponse status (JsonObject data)
               \<and> \<not> truthy_str (resp_error data)))
       \<and> market (alertObjs w' moved) = market (alertObjs w moved)
       \<and> timestamp (alertObjs w' moved) = timestamp (alertObjs w moved)
       \<and> (\<forall>r. r \<noteq> moved \<longrightarrow> alertObjs w' r = alertObjs w r)
       \<and> arrayObjs w' = arrayObjs w
       \<and> store w' = (store w)(market (alertObjs w moved) := map (alertObjs w') (arrayObjs w arr))
       \<and> (\<exists>handled.
            newEffects w w' =
              [Fetch req] @ handled @
              [Emit (MoveEvent (price (alertObjs w moved)) (market (alertObjs w moved)) newPrice),
               SaveAlerts (market (alertObjs w moved)) (map (alertObjs w') (arrayObjs w arr))]
            \<and> (handled = [] \<or> (\<exists>msg. handled = [HandleFetchError msg])))"
proof -
  define ok where "ok = (\<exists>status data. backend w req = HttpResponse status (JsonObject data)
                     \<and> \<not> truthy_str (resp_error data))"
  note m = moveAlert_accepted [OF assms ok_def]
  have d: "deref w' arr = map (alertObjs w') (arrayObjs w arr)"
    by (simp add: deref_def m(3))
  obtain handled where h:
    "trace w' = trace w @ [Fetch req] @ handled @
           [Emit (MoveEvent (price (alertObjs w moved)) (market (alertObjs w moved)) newPrice),
            SaveAlerts (market (alertObjs w moved)) (deref w' arr)]"
    "handled = [] \<or> (\<exists>msg. handled = [HandleFetchError msg])"
    using m(5) by (auto split: if_splits)
  have e: "\<exists>handled.
            newEffects w w' =
              [Fetch req] @ handled @
              [Emit (MoveEvent (price (alertObjs w moved)) (market (alertObjs w moved)) newPrice),
               SaveAlerts (market (alertObjs w moved)) (map (alertObjs w') (arrayObjs w arr))]
            \<and> (handled = [] \<or> (\<exists>msg. handled = [HandleFetchError msg]))"
    using h newEffects_append [OF h(1)] unfolding d by blast
  have a: "price (alertObjs w' moved) = newPrice" "triggered (alertObjs w' moved) = False"
    "active (alertObjs w' moved) = ok"
    "market (alertObjs w' moved) = market (alertObjs w moved)"
    "timestamp (alertObjs w' moved) = timestamp (alertObjs w moved)"
    "\<forall>r. r \<noteq> moved \<longrightarrow> alertObjs w' r = alertObjs w r"
    by (simp_all add: m(2))
  have s: "store w' = (store w)(market (alertObjs w moved) := map (alertObjs w') (arrayObjs w arr))"
    using m(4) unfolding d .
  show ?thesis
    using m(1) a m(3) s e unfolding ok_def by blast
qed

lemma getPushSubscription_worldList:
  "getPushSubscription worldList =
     (Returned (Some (PushSubscription ''endpoint'')),
      worldList\<lparr>pushSubscription := Some (PushSubscription ''endpoint'')\<rparr>)"
  by (simp add: getPushSubscription_def worldList_def worldKey_def world0_def)

theorem moveAlert_sets_price_and_persists_witness:
  "fst (moveAlert worldList 0 (Fin 2100) (Fin 2050) 0) = Returned ()
   \<and> alertObjs (snd (moveAlert worldList 0 (Fin 2100) (Fin 2050) 0)) 0
       = sampleAlert\<lparr>active := True, price := Fin 2100\<rparr>
   \<and> store (snd (moveAlert worldList 0 (Fin 2100) (Fin 2050) 0)) ''ETH-USD''
       = [sampleAlert\<lparr>active := True, price := Fin 2100\<rparr>, sampleAlert\<lparr>price := Fin 2500\<rparr>]"
proof -
  let ?w' = "snd (moveAlert worldList 0 (Fin 2100) (Fin 2050) 0)"
  let ?req = "\<lparr>req_subscription = PushSubscription ''endpoint'',
                 req_origin = locationHref worldList,
                 req_market = market (alertObjs worldList 0),
                 req_price = price (alertObjs worldList 0),
                 req_currentPrice = Some (Fin 2050),
                 req_unsubscribe = None, req_status = None,
                 req_newPrice = Some (Fin 2100)\<rparr>"
  have g: "fst (getPushSubscription worldList) = Returned (Some (PushSubscription ''endpoint''))"
    by (simp add: getPushSubscription_worldList)
  have v: "fst (validateAlert (snd (getPushSubscription worldList))
                  (market (alertObjs worldList 0)) (Fin 2100)) = Returned True"
    unfolding getPushSubscription_worldList
    by (simp add: validateAlert_def getPrice_def worldList_def worldKey_def world0_def)
  note t = moveAlert_sets_price_and_persists [OF g v refl refl, of "Fin 2050" 0]
  have b: "backend worldList ?req =
             HttpResponse 200 (JsonObject \<lparr>resp_error = None, resp_alert = None\<rparr>)"
    by (simp add: worldList_def worldKey_def world0_def)
  have act: "active (alertObjs ?w' 0)"
    using t b by auto
  have o1: "alertObjs ?w' 1 = sampleAlert\<lparr>price := Fin 2500\<rparr>"
    using t by (simp add: worldList_def)
  have flds: "price (alertObjs ?w' 0) = Fin 2100" "triggered (alertObjs ?w' 0) = False"
    "market (alertObjs ?w' 0) = ''ETH-USD''" "timestamp (alertObjs ?w' 0) = 0"
    using t by (simp_all add: worldList_def worldKey_def world0_def sampleAlert_def)
  have o0: "alertObjs ?w' 0 = sampleAlert\<lparr>active := True, price := Fin 2100\<rparr>"
    using act flds by (cases "alertObjs ?w' 0") (simp add: sampleAlert_def)
  have st: "store ?w' ''ETH-USD'' = map (alertObjs ?w') [0, 1]"
    using t by (simp add: worldList_def worldKey_def world0_def sampleAlert_def)
  show ?thesis
    using t o0 o1 st by simp
qed

subsection \<open>Removing an alert\<close>

lemma toggleAlert_trace:
  "\<exists>l. trace (snd (toggleAlert w m p c u s)) = trace w @ l"
proof -
  let ?w1 = "snd (getPushSubscription w)"
  have 1: "trace ?w1 = trace w" by (rule getPushSubscription_frame(3))
  have 2: "\<exists>l. trace (snd (validateAlert ?w1 m p)) = trace w @ l"
    by (simp add: validateAlert_def getPrice_def effect_def 1 split: option.splits)
  then obtain l where l: "trace (snd (validateAlert ?w1 m p)) = trace w @ l" by blast
  have 3: "\<exists>k. trace (snd (fetchJson req (snd (validateAlert ?w1 m p)))) = trace w @ k" for req
    by (simp add: fetchJson_frame(4) effect_def l)
  have 4: "\<exists>k. trace (handleFetchError err (snd (fetchJson req (snd (validateAlert ?w1 m p)))))
              = trace w @ k" for req err
    by (simp add: fetchJson_frame(4) effect_def handleFetchError_def l)
  show ?thesis
    using 1 2 3 4
    by (simp add: toggleAlert_def split_beta
          split: outcome.splits option.splits bool.splits sum.splits)
qed

lemma unsubscribe_trace:
  "\<exists>l. trace (snd (unsubscribe w m p)) = trace w @ l"
proof -
  obtain l where "trace (snd (toggleAlert w m p None (Some True) None)) = trace w @ l"
    using toggleAlert_trace by blast
  then show ?thesis
    by (simp add: unsubscribe_def split_beta effect_def
          split: outcome.splits option.splits)
qed

lemma unsubscribe_not_Suspended_objects:
  "alertObjs (snd (unsubscribe w m p)) = alertObjs w"
  "arrayObjs (snd (unsubscribe w m p)) = arrayObjs w"
  "store (snd (unsubscribe w m p)) = store w"
  using unsubscribe_frame(2) [of w m p] by (simp_all add: sameObjects_def)

text \<open>What \<open>removeAlert\<close> does once the unsubscription, if any, has settled.\<close>

lemma removeAlert_settled:
  assumes "triggered (alertObjs w removed)
           \<or> fst (unsubscribe w (market (alertObjs w removed)) (price (alertObjs w removed)))
               \<noteq> Suspended"
    and "w' = snd (removeAlert w removed marketAlerts)"
    and "kept = filter (\<lambda>a. js_strict_neq (price a) (price (alertObjs w removed)))"
  shows "fst (removeAlert w removed marketAlerts) = Returned ()"
    and "alertObjs w' = alertObjs w"
    and "arrayObjs w' = arrayObjs w"
    and "store w' = (case marketAlerts of
                       None \<Rightarrow> store w
                     | Some arr \<Rightarrow> (store w)(market (alertObjs w removed) := kept (deref w arr)))"
    and "\<exists>before. newEffects w w' =
           before @ Emit (RemoveEvent (price (alertObjs w removed)) (market (alertObjs w removed)))
             # (case marketAlerts of
                  None \<Rightarrow> []
                | Some arr \<Rightarrow> [SaveAlerts (market (alertObjs w removed)) (kept (deref w arr))])
         \<and> (triggered (alertObjs w removed) \<longrightarrow> before = [])"
proof -
  let ?a = "alertObjs w removed"
  let ?u = "unsubscribe w (market ?a) (price ?a)"
  obtain l where l: "trace (snd ?u) = trace w @ l" using unsubscribe_trace by blast
  note o = unsubscribe_not_Suspended_objects [of w "market ?a" "price ?a"]
  have d: "deref (effect e v) arr = deref v arr" for e v arr
    by (simp add: deref_def effect_def)
  have du: "deref (snd ?u) arr = deref w arr" for arr
    by (simp add: deref_def o)
  show "fst (removeAlert w removed marketAlerts) = Returned ()"
    using assms(1)
    by (auto simp add: removeAlert_def Let_def split_beta split: outcome.splits option.splits)
  show "alertObjs w' = alertObjs w"
    using assms(1) o unfolding assms(2)
    by (auto simp add: removeAlert_def Let_def split_beta effect_def wsSaveAlerts_def
          split: outcome.splits option.splits)
  show "arrayObjs w' = arrayObjs w"
    using assms(1) o unfolding assms(2)
    by (auto simp add: removeAlert_def Let_def split_beta effect_def wsSaveAlerts_def
          split: outcome.splits option.splits)
  show "store w' = (case marketAlerts of
                       None \<Rightarrow> store w
                     | Some arr \<Rightarrow> (store w)(market (alertObjs w removed) := kept (deref w arr)))"
    using assms(1) o du unfolding assms(2) assms(3)
    by (auto simp add: removeAlert_def Let_def split_beta effect_def wsSaveAlerts_def deref_def
          split: outcome.splits option.splits)
  have "\<exists>before. trace w' =
           trace w @ before @ Emit (RemoveEvent (price ?a) (market ?a))
             # (case marketAlerts of
                  None \<Rightarrow> []
                | Some arr \<Rightarrow> [SaveAlerts (market ?a) (kept (deref w arr))])
         \<and> (triggered ?a \<longrightarrow> before = [])"
    using assms(1) o du l unfolding assms(2) assms(3)
    by (auto simp add: removeAlert_def Let_def split_beta effect_def wsSaveAlerts_def deref_def
          split: outcome.splits option.splits)
  then obtain before where b: "trace w' =
           trace w @ (before @ Emit (RemoveEvent (price ?a) (market ?a))
             # (case marketAlerts of
                  None \<Rightarrow> []
                | Some arr \<Rightarrow> [SaveAlerts (market ?a) (kept (deref w arr))]))"
         "triggered ?a \<longrightarrow> before = []"
    by auto
  show "\<exists>before. newEffects w w' =
           before @ Emit (RemoveEvent (price (alertObjs w removed)) (market (alertObjs w removed)))
             # (case marketAlerts of
                  None \<Rightarrow> []
                | Some arr \<Rightarrow> [SaveAlerts (market (alertObjs w removed)) (kept (deref w arr))])
         \<and> (triggered (alertObjs w removed) \<longrightarrow> before = [])"
    using newEffects_append [OF b(1)] b(2) by blast
qed

lemma removeAlert_Returned:
  "fst (removeAlert w removed marketAlerts) = Returned () \<Longrightarrow>
   triggered (alertObjs w removed)
   \<or> fst (unsubscribe w (market (alertObjs w removed)) (price (alertObjs w removed))) \<noteq> Suspended"
  by (auto simp add: removeAlert_def Let_def split_beta split: outcome.splits option.splits)

text \<open>
  C7. For an alert whose \<open>triggered\<close> flag is true \<open>removeAlert\<close> completes and
  its effects are the \<open>remove\<close> event followed, when a list is supplied, by one save:
  no request is sent. Whenever \<open>removeAlert\<close> completes, triggered or not, the event has
  been emitted, and when a list is supplied the store holds for the market the supplied list
  without the entries whose price is equal (\<open>===\<close>) to the removed alert's price; the
  caller's objects and arrays are untouched.
\<close>

theorem removeAlert_triggered_alert:
  assumes "w' = snd (removeAlert w removed marketAlerts)"
    and "kept = filter (\<lambda>a. \<not> js_strict_eq (price a) (price (alertObjs w removed)))"
    and "event = Emit (RemoveEvent (price (alertObjs w removed)) (market (alertObjs w removed)))"
  shows "(triggered (alertObjs w removed) \<longrightarrow>
            fst (removeAlert w removed marketAlerts) = Returned ()
          \<and> newEffects w w' =
              event # (case marketAlerts of
                         None \<Rightarrow> []
                       | Some arr \<Rightarrow> [SaveAlerts (market (alertObjs w removed)) (kept (deref w arr))])
          \<and> filter isFetch (newEffects w w') = [])
       \<and> (fst (removeAlert w removed marketAlerts) = Returned () \<longrightarrow>
            event \<in> set (newEffects w w')
          \<and> store w' = (case marketAlerts of
                          None \<Rightarrow> store w
                        | Some arr \<Rightarrow>
                            (store w)(market (alertObjs w removed) := kept (deref w arr)))
          \<and> alertObjs w' = alertObjs w \<and> arrayObjs w' = arrayObjs w)"
proof -
  have k: "kept = filter (\<lambda>a. js_strict_neq (price a) (price (alertObjs w removed)))"
    by (simp add: assms(2) js_strict_neq_def)
  have 1: "fst (removeAlert w removed marketAlerts) = Returned ()
          \<and> newEffects w w' =
              event # (case marketAlerts of
                         None \<Rightarrow> []
                       | Some arr \<Rightarrow> [SaveAlerts (market (alertObjs w removed)) (kept (deref w arr))])
          \<and> filter isFetch (newEffects w w') = []"
    if t: "triggered (alertObjs w removed)"
  proof -
    note r = removeAlert_settled [OF disjI1 [OF t] assms(1) k]
    have n: "newEffects w w' =
              event # (case marketAlerts of
                         None \<Rightarrow> []
                       | Some arr \<Rightarrow> [SaveAlerts (market (alertObjs w removed)) (kept (deref w arr))])"
      using r(5) t by (auto simp add: assms(3))
    have "filter isFetch (newEffects w w') = []"
      unfolding n by (simp add: assms(3) isFetch_def split: option.splits)
    then show ?thesis using r(1) n by simp
  qed
  have 2: "event \<in> set (newEffects w w')
          \<and> store w' = (case marketAlerts of
                          None \<Rightarrow> store w
                        | Some arr \<Rightarrow>
                            (store w)(market (alertObjs w removed) := kept (deref w arr)))
          \<and> alertObjs w' = alertObjs w \<and> arrayObjs w' = arrayObjs w"
    if d: "fst (removeAlert w removed marketAlerts) = Returned ()"
  proof -
    note r = removeAlert_settled [OF removeAlert_Returned [OF d] assms(1) k]
    have "event \<in> set (newEffects w w')"
      using r(5) by (auto simp add: assms(3))
    then show ?thesis using r(2) r(3) r(4) by simp
  qed
  from 1 2 show ?thesis by blast
qed

theorem removeAlert_triggered_alert_witness:
  "fst (removeAlert worldTriggered 0 (Some 0)) = Returned ()
   \<and> newEffects worldTriggered (snd (removeAlert worldTriggered 0 (Some 0))) =
       [Emit (RemoveEvent (Fin 2000) ''ETH-USD''),
        SaveAlerts ''ETH-USD'' [sampleAlert\<lparr>price := Fin 2500\<rparr>]]
   \<and> store (snd (removeAlert worldTriggered 0 (Some 0))) ''ETH-USD''
       = [sampleAlert\<lparr>price := Fin 2500\<rparr>]"
proof -
  have t: "triggered (alertObjs worldTriggered 0)"
    by (simp add: worldTriggered_def)
  have d: "filter (\<lambda>a. \<not> js_strict_eq (price a) (Fin 2000))
             (deref worldTriggered 0) = [sampleAlert\<lparr>price := Fin 2500\<rparr>]"
    by (simp add: deref_def worldTriggered_def worldList_def worldKey_def world0_def
          sampleAlert_def js_strict_eq_def)
  have a: "price (alertObjs worldTriggered 0) = Fin 2000"
          "market (alertObjs worldTriggered 0) = ''ETH-USD''"
    by (simp_all add: worldTriggered_def sampleAlert_def)
  show ?thesis
    using removeAlert_triggered_alert [OF refl refl refl, of worldTriggered 0 "Some 0"] t
    by (simp add: d a)
qed

subsection \<open>When validation rejects\<close>

lemma removeAlert_rejected:
  assumes sub: "fst (getPushSubscription w) = Returned (Some sub)"
    and val: "fst (validateAlert (snd (getPushSubscription w))
                (market (alertObjs w removed)) (price (alertObjs w removed))) = Returned False"
    and nt: "\<not> triggered (alertObjs w removed)"
    and w': "w' = snd (removeAlert w removed marketAlerts)"
  shows "filter isFetch (newEffects w w') = []"
proof -
  let ?m = "market (alertObjs w removed)" and ?p = "price (alertObjs w removed)"
  let ?w1 = "snd (getPushSubscription w)"
  let ?v = "snd (validateAlert ?w1 ?m ?p)"
  obtain mp where mp: "?v = effect (ConsoleError ?p mp) ?w1"
    using validateAlert_False [OF val] by blast
  have tv: "trace ?v = trace w @ [ConsoleError ?p mp]"
    by (simp add: mp effect_frame getPushSubscription_frame)
  have ov: "alertObjs ?v = alertObjs w" "arrayObjs ?v = arrayObjs w"
    using getPushSubscription_frame(2) [of w]
    by (simp_all add: mp effect_def sameObjects_def)
  have t: "toggleAlert w ?m ?p None (Some True) None = (Returned None, ?v)"
    by (rule toggleAlert_rejected [OF sub val])
  have u: "unsubscribe w ?m ?p =
             (Thrown (TypeError ''Cannot read properties of undefined (reading alert)''), ?v)"
    using unsubscribe_undefined [of w ?m ?p] t by simp
  have "\<exists>l. trace w' = trace w @ l \<and> filter isFetch l = []"
    unfolding w' using nt
    by (simp add: removeAlert_def u Let_def tv ov effect_def wsSaveAlerts_def isFetch_def
          split: option.splits)
  then obtain l where l: "trace w' = trace w @ l" "filter isFetch l = []" by blast
  show ?thesis using newEffects_append [OF l(1)] l(2) by simp
qed

text \<open>
  C4, as amended. Let a subscription be there, so that validation runs. When validation
  rejects the price, none of the three operations sends a request, and each completes.
  \<open>moveAlert\<close> aborts: the record, the array and the store are as before the call.
  \<open>createAlert\<close> does not abort: the record is untouched, but it has been appended to
  the caller's array, the store holds the array with the new entry, and the \<open>add\<close> event
  is emitted. \<open>removeAlert\<close> (which validates the price of an alert that has not
  triggered) does not abort either: it emits the \<open>remove\<close> event and, when a list is
  supplied, saves the list without the entries of that price.
\<close>

theorem validation_rejection_effects:
  assumes "fst (getPushSubscription w) = Returned (Some sub)"
    and "rejects =
           (\<lambda>m p. fst (validateAlert (snd (getPushSubscription w)) m p) = Returned False)"
    and "wm = snd (moveAlert w moved newPrice currentPrice arr)"
    and "wc = snd (createAlert w created arr c)"
    and "wr = snd (removeAlert w removed marketAlerts)"
  shows "(rejects (market (alertObjs w moved)) newPrice \<longrightarrow>
            fst (moveAlert w moved newPrice currentPrice arr) = Returned ()
          \<and> filter isFetch (newEffects w wm) = []
          \<and> alertObjs wm = alertObjs w \<and> arrayObjs wm = arrayObjs w \<and> store wm = store w)
       \<and> (rejects (market (alertObjs w created)) (price (alertObjs w created)) \<longrightarrow>
            fst (createAlert w created arr c) = Returned ()
          \<and> filter isFetch (newEffects w wc) = []
          \<and> alertObjs wc = alertObjs w
          \<and> arrayObjs wc = (arrayObjs w)(arr := arrayObjs w arr @ [created])
          \<and> store wc = (store w)(market (alertObjs w created) :=
                                   map (alertObjs w) (arrayObjs w arr @ [created]))
          \<and> Emit (AddEvent (price (alertObjs w created)) (market (alertObjs w created))
                    (timestamp (alertObjs w created))) \<in> set (newEffects w wc))
       \<and> (\<not> triggered (alertObjs w removed)
           \<and> rejects (market (alertObjs w removed)) (price (alertObjs w removed)) \<longrightarrow>
            fst (removeAlert w removed marketAlerts) = Returned ()
          \<and> filter isFetch (newEffects w wr) = []
          \<and> alertObjs wr = alertObjs w \<and> arrayObjs wr = arrayObjs w
          \<and> store wr = (case marketAlerts of
                          None \<Rightarrow> store w
                        | Some a \<Rightarrow>
                            (store w)(market (alertObjs w removed) :=
                               filter (\<lambda>x. \<not> js_strict_eq (price x) (price (alertObjs w removed)))
                                 (deref w a)))
          \<and> Emit (RemoveEvent (price (alertObjs w removed)) (market (alertObjs w removed)))
               \<in> set (newEffects w wr))"
proof -
  let ?w1 = "snd (getPushSubscription w)"
  have mv: "fst (moveAlert w moved newPrice currentPrice arr) = Returned ()
          \<and> filter isFetch (newEffects w wm) = []
          \<and> alertObjs wm = alertObjs w \<and> arrayObjs wm = arrayObjs w \<and> store wm = store w"
    if "rejects (market (alertObjs w moved)) newPrice"
  proof -
    have val: "fst (validateAlert ?w1 (market (alertObjs w moved)) newPrice) = Returned False"
      using that assms(2) by simp
    obtain mp where mp: "snd (validateAlert ?w1 (market (alertObjs w moved)) newPrice)
                           = effect (ConsoleError newPrice mp) ?w1"
      using validateAlert_False [OF val] by blast
    have e: "moveAlert w moved newPrice currentPrice arr =
               (Returned (), effect (ConsoleError newPrice mp) ?w1)"
      using moveAlert_rejected [OF assms(1) val] mp by simp
    have tr: "trace wm = trace w @ [ConsoleError newPrice mp]"
      by (simp add: assms(3) e effect_frame getPushSubscription_frame)
    have "alertObjs wm = alertObjs w \<and> arrayObjs wm = arrayObjs w \<and> store wm = store w"
      using getPushSubscription_frame(2) [of w]
      by (simp add: assms(3) e effect_def sameObjects_def)
    then show ?thesis
      using newEffects_append [OF tr] by (simp add: e isFetch_def)
  qed
  have cr: "fst (createAlert w created arr c) = Returned ()
          \<and> filter isFetch (newEffects w wc) = []
          \<and> alertObjs wc = alertObjs w
          \<and> arrayObjs wc = (arrayObjs w)(arr := arrayObjs w arr @ [created])
          \<and> store wc = (store w)(market (alertObjs w created) :=
                                   map (alertObjs w) (arrayObjs w arr @ [created]))
          \<and> Emit (AddEvent (price (alertObjs w created)) (market (alertObjs w created))
                    (timestamp (alertObjs w created))) \<in> set (newEffects w wc)"
    if "rejects (market (alertObjs w created)) (price (alertObjs w created))"
  proof -
    have h: "\<not> truthy_str (publicVapidKey w)
           \<or> (fst (getPushSubscription w) = Returned (Some sub)
              \<and> fst (validateAlert ?w1 (market (alertObjs w created)) (price (alertObjs w created)))
                  = Returned False)"
      using that assms(1) assms(2) by simp
    note u = createAlert_undefined [OF h assms(4)]
    obtain logged where l:
      "newEffects w wc =
         logged @
         [Notice (RegistrationFailure ''Cannot read properties of undefined (reading error)''),
          SaveAlerts (market (alertObjs w created))
            (map (alertObjs w) (arrayObjs w arr @ [created])),
          Emit (AddEvent (price (alertObjs w created)) (market (alertObjs w created))
                  (timestamp (alertObjs w created)))]"
      "logged = []
       \<or> (\<exists>marketPrice. logged = [ConsoleError (price (alertObjs w created)) marketPrice])"
      using u(4) by blast
    have "filter isFetch (newEffects w wc) = []"
      using l(2) unfolding l(1) by (auto simp add: isFetch_def)
    moreover have "Emit (AddEvent (price (alertObjs w created)) (market (alertObjs w created))
                    (timestamp (alertObjs w created))) \<in> set (newEffects w wc)"
      unfolding l(1) by simp
    ultimately show ?thesis using u(3) u(5) u(6) u(7) by simp
  qed
  have rm: "fst (removeAlert w removed marketAlerts) = Returned ()
          \<and> filter isFetch (newEffects w wr) = []
          \<and> alertObjs wr = alertObjs w \<and> arrayObjs wr = arrayObjs w
          \<and> store wr = (case marketAlerts of
                          None \<Rightarrow> store w
                        | Some a \<Rightarrow>
                            (store w)(market (alertObjs w removed) :=
                               filter (\<lambda>x. \<not> js_strict_eq (price x) (price (alertObjs w removed)))
                                 (deref w a)))
          \<and> Emit (RemoveEvent (price (alertObjs w removed)) (market (alertObjs w removed)))
               \<in> set (newEffects w wr)"
    if "\<not> triggered (alertObjs w removed)"
      and "rejects (market (alertObjs w removed)) (price (alertObjs w removed))"
  proof -
    let ?m = "market (alertObjs w removed)" and ?p = "price (alertObjs w removed)"
    have val: "fst (validateAlert ?w1 ?m ?p) = Returned False"
      using that(2) assms(2) by simp
    have t: "toggleAlert w ?m ?p None (Some True) None =
               (Returned None, snd (validateAlert ?w1 ?m ?p))"
      by (rule toggleAlert_rejected [OF assms(1) val])
    have ns: "fst (unsubscribe w ?m ?p) \<noteq> Suspended"
      using unsubscribe_undefined [of w ?m ?p] t by simp
    have k: "filter (\<lambda>x. \<not> js_strict_eq (price x) ?p) =
             filter (\<lambda>a. js_strict_neq (price a) ?p)"
      by (simp add: js_strict_neq_def)
    note r = removeAlert_settled [OF disjI2 [OF ns] assms(5) k]
    have "Emit (RemoveEvent ?p ?m) \<in> set (newEffects w wr)"
      using r(5) by auto
    then show ?thesis
      using r(1) r(2) r(3) r(4) removeAlert_rejected [OF assms(1) val that(1) assms(5)]
      by simp
  qed
  from mv cr rm show ?thesis by blast
qed


lemma getPushSubscription_worldListPriced:
  "getPushSubscription worldListPriced =
     (Returned (Some (PushSubscription ''endpoint'')),
      worldListPriced\<lparr>pushSubscription := Some (PushSubscription ''endpoint'')\<rparr>)"
  by (simp add: getPushSubscription_def worldListPriced_def worldList_def worldKey_def world0_def)

lemma validateAlert_worldListPriced:
  "fst (validateAlert (worldListPriced\<lparr>pushSubscription := Some (PushSubscription ''endpoint'')\<rparr>)
          ''ETH-USD'' (Fin 2100)) = Returned False"
  "fst (validateAlert (worldListPriced\<lparr>pushSubscription := Some (PushSubscription ''endpoint'')\<rparr>)
          ''ETH-USD'' (Fin 2000)) = Returned False"
  "fst (validateAlert (worldListPriced\<lparr>pushSubscription := Some (PushSubscription ''endpoint'')\<rparr>)
          ''ETH-USD'' (Fin 2500)) = Returned False"
  by (simp_all add: validateAlert_def getPrice_def percentChangeToAlert_def js_gt_def
        worldListPriced_def worldList_def worldKey_def world0_def)

theorem validation_rejection_effects_witness:
  "store (snd (moveAlert worldListPriced 0 (Fin 2100) (Fin 100) 0)) = store worldListPriced
   \<and> alertObjs (snd (moveAlert worldListPriced 0 (Fin 2100) (Fin 100) 0)) 0 = sampleAlert
   \<and> store (snd (createAlert worldListPriced 0 0 None)) ''ETH-USD''
       = [sampleAlert, sampleAlert\<lparr>price := Fin 2500\<rparr>, sampleAlert]
   \<and> store (snd (removeAlert worldListPriced 1 (Some 0))) ''ETH-USD'' = [sampleAlert]"
proof -
  have g: "fst (getPushSubscription worldListPriced) = Returned (Some (PushSubscription ''endpoint''))"
    by (simp add: getPushSubscription_worldListPriced)
  have a: "alertObjs worldListPriced 0 = sampleAlert"
    "alertObjs worldListPriced (Suc 0) = sampleAlert\<lparr>price := Fin 2500\<rparr>"
    "arrayObjs worldListPriced 0 = [0, Suc 0]"
    "market sampleAlert = ''ETH-USD''" "price sampleAlert = Fin 2000"
    "triggered sampleAlert = False"
    by (simp_all add: worldListPriced_def worldList_def sampleAlert_def)
  have d: "filter (\<lambda>x. \<not> js_strict_eq (price x) (Fin 2500)) (deref worldListPriced 0)
             = [sampleAlert]"
    by (simp add: deref_def worldListPriced_def worldList_def js_strict_eq_def sampleAlert_def)
  show ?thesis
    using validation_rejection_effects [OF g refl refl refl refl,
            of 0 "Fin 2100" "Fin 100" 0 0 None 1 "Some 0"]
    unfolding getPushSubscription_worldListPriced
    by (simp add: a d validateAlert_worldListPriced)
qed

lemma createAlert_worldPriced:
  "createAlert worldPriced 0 0 None =
     (Returned (),
      worldPriced\<lparr>pushSubscription := Some (PushSubscription ''endpoint''),
                  arrayObjs := (\<lambda>r. [])(0 := [0]),
                  store := (\<lambda>m. [])(''ETH-USD'' := [sampleAlert]),
                  trace := [ConsoleError (Fin 2000) (Fin 100),
                            Notice (RegistrationFailure
                                      ''Cannot read properties of undefined (reading error)''),
                            SaveAlerts ''ETH-USD'' [sampleAlert],
                            Emit (AddEvent (Fin 2000) ''ETH-USD'' 0)]\<rparr>)"
  by (simp add: createAlert_def subscribe_def toggleAlert_def getPushSubscription_def
        validateAlert_def getPrice_def percentChangeToAlert_def js_gt_def
        worldPriced_def worldKey_def world0_def sampleAlert_def wsSaveAlerts_def effect_def
        deref_def)

text \<open>
  C4, counterexample to the claim as stated: the feed prices \<open>ETH-USD\<close> at \<open>100\<close>,
  so validation rejects the alert at \<open>2000\<close>; \<open>createAlert\<close> still appends it to the
  caller's list and saves the list, which the store did not hold before.
\<close>

theorem createAlert_persists_rejected_price:
  "fst (validateAlert (snd (getPushSubscription worldPriced))
          (market (alertObjs worldPriced 0)) (price (alertObjs worldPriced 0))) = Returned False
   \<and> fst (createAlert worldPriced 0 0 None) = Returned ()
   \<and> store worldPriced ''ETH-USD'' = []
   \<and> store (snd (createAlert worldPriced 0 0 None)) ''ETH-USD'' = [sampleAlert]
   \<and> arrayObjs worldPriced 0 = []
   \<and> arrayObjs (snd (createAlert worldPriced 0 0 None)) 0 = [0]"
  unfolding createAlert_worldPriced
  by (simp add: getPushSubscription_def validateAlert_def getPrice_def percentChangeToAlert_def
        js_gt_def worldPriced_def worldKey_def world0_def sampleAlert_def)

subsection \<open>What toggleAlert gives its caller\<close>

lemma toggleAlert_accepted:
  assumes sub: "fst (getPushSubscription w) = Returned (Some sub)"
    and val: "fst (validateAlert (snd (getPushSubscription w)) m p) = Returned True"
    and req: "req = \<lparr>req_subscription = sub, req_origin = stripHash (locationHref w),
                    req_market = m, req_price = p, req_currentPrice = c,
                    req_unsubscribe = u, req_status = s, req_newPrice = None\<rparr>"
  shows "fst (toggleAlert w m p c u s) =
           Returned (Some (case fst (fetchJson req w) of
                             Inr data \<Rightarrow> data
                           | Inl err \<Rightarrow> \<lparr>resp_error = Some (message err), resp_alert = None\<rparr>))"
proof -
  let ?w1 = "snd (getPushSubscription w)"
  have f1: "locationHref ?w1 = locationHref w" "backend ?w1 = backend w"
    using getPushSubscription_frame(1) [of w] by (simp_all add: sameService_def)
  have v: "validateAlert ?w1 m p = (Returned True, ?w1)"
    using val validateAlert_True [OF val] by (simp add: prod_eq_iff)
  show ?thesis
    using sub v fetchJson_fst_cong [OF f1(2), of req]
    by (simp add: toggleAlert_def split_beta f1 req [symmetric] split: sum.splits)
qed

text \<open>
  C8, as amended. \<open>toggleAlert\<close> throws to its caller exactly when obtaining the push
  subscription throws, with that error. Once a subscription is there and validation has
  accepted the price it does not throw: a network failure, a body that is not JSON, a
  \<open>null\<close> body and an object with an \<open>error\<close> all come back as the result
  \<open>{error: message}\<close>, and an object without an \<open>error\<close> comes back as it is,
  whatever the status of the response.
\<close>

theorem toggleAlert_failures:
  assumes "req = \<lparr>req_subscription = sub, req_origin = stripHash (locationHref w),
                  req_market = m, req_price = p, req_currentPrice = c,
                  req_unsubscribe = u, req_status = s, req_newPrice = None\<rparr>"
    and "failed = (\<lambda>msg. Returned (Some \<lparr>resp_error = Some msg, resp_alert = None\<rparr>))"
  shows "(fst (toggleAlert w m p c u s) = Thrown e \<longleftrightarrow> fst (getPushSubscription w) = Thrown e)
       \<and> (fst (getPushSubscription w) = Returned (Some sub)
           \<and> fst (validateAlert (snd (getPushSubscription w)) m p) = Returned True \<longrightarrow>
            fst (toggleAlert w m p c u s) =
              (case backend w req of
                 NetworkFailure msg \<Rightarrow> failed msg
               | HttpResponse status (NotJson msg) \<Rightarrow> failed msg
               | HttpResponse status JsonNull \<Rightarrow>
                   failed ''Cannot read properties of null (reading error)''
               | HttpResponse status (JsonObject data) \<Rightarrow>
                   (if truthy_str (resp_error data) then failed (the (resp_error data))
                    else Returned (Some data))))"
proof -
  have 2: "fst (toggleAlert w m p c u s) =
              (case backend w req of
                 NetworkFailure msg \<Rightarrow> failed msg
               | HttpResponse status (NotJson msg) \<Rightarrow> failed msg
               | HttpResponse status JsonNull \<Rightarrow>
                   failed ''Cannot read properties of null (reading error)''
               | HttpResponse status (JsonObject data) \<Rightarrow>
                   (if truthy_str (resp_error data) then failed (the (resp_error data))
                    else Returned (Some data)))"
    if "fst (getPushSubscription w) = Returned (Some sub)"
      and "fst (validateAlert (snd (getPushSubscription w)) m p) = Returned True"
    unfolding toggleAlert_accepted [OF that assms(1)]
    by (simp add: fetchJson_def assms(2) split: fetch_result.splits json_body.splits)
  show ?thesis using toggleAlert_Thrown [of w m p c u s e] 2 by blast
qed

theorem toggleAlert_failures_witness:
  "fst (toggleAlert
          (worldKey\<lparr>backend := (\<lambda>r. HttpResponse 500
                        (JsonObject \<lparr>resp_error = None, resp_alert = None\<rparr>))\<rparr>)
          ''ETH-USD'' (Fin 2000) None None None)
     = Returned (Some \<lparr>resp_error = None, resp_alert = None\<rparr>)
   \<and> fst (toggleAlert (worldKey\<lparr>backend := (\<lambda>r. NetworkFailure ''Failed to fetch'')\<rparr>)
          ''ETH-USD'' (Fin 2000) None None None)
     = Returned (Some \<lparr>resp_error = Some ''Failed to fetch'', resp_alert = None\<rparr>)"
proof -
  let ?w5 = "worldKey\<lparr>backend := (\<lambda>r. HttpResponse 500
                        (JsonObject \<lparr>resp_error = None, resp_alert = None\<rparr>))\<rparr>"
  let ?wn = "worldKey\<lparr>backend := (\<lambda>r. NetworkFailure ''Failed to fetch'')\<rparr>"
  let ?sub = "PushSubscription ''endpoint''"
  have g5: "getPushSubscription ?w5 = (Returned (Some ?sub), ?w5\<lparr>pushSubscription := Some ?sub\<rparr>)"
    by (simp add: getPushSubscription_def worldKey_def world0_def)
  have gn: "getPushSubscription ?wn = (Returned (Some ?sub), ?wn\<lparr>pushSubscription := Some ?sub\<rparr>)"
    by (simp add: getPushSubscription_def worldKey_def world0_def)
  have v5: "fst (validateAlert (?w5\<lparr>pushSubscription := Some ?sub\<rparr>) ''ETH-USD'' (Fin 2000))
              = Returned True"
    by (simp add: validateAlert_def getPrice_def worldKey_def world0_def)
  have vn: "fst (validateAlert (?wn\<lparr>pushSubscription := Some ?sub\<rparr>) ''ETH-USD'' (Fin 2000))
              = Returned True"
    by (simp add: validateAlert_def getPrice_def worldKey_def world0_def)
  show ?thesis
    using toggleAlert_failures [OF refl refl, of ?w5 "''ETH-USD''" "Fin 2000" None None None
             undefined ?sub]
          toggleAlert_failures [OF refl refl, of ?wn "''ETH-USD''" "Fin 2000" None None None
             undefined ?sub]
    by (simp add: g5 gn v5 vn)
qed

text \<open>
  C8, counterexample to the claim as stated: with a key configured and the permission to
  notify denied, \<open>toggleAlert\<close> throws the platform's error to its caller.
\<close>

theorem toggleAlert_throws_when_permission_denied:
  "fst (toggleAlert worldDenied ''ETH-USD'' (Fin 2000) None None None)
     = Thrown (DOMException ''Registration failed - permission denied'')"
  by (simp add: toggleAlert_def getPushSubscription_def worldDenied_def worldKey_def world0_def)

subsection \<open>Marking alerts as triggered\<close>

lemma markFirst_length: "length (markFirst p xs) = length xs"
  by (induction xs) simp_all

lemma markFirst_prices: "map price (markFirst p xs) = map price xs"
  by (induction xs) simp_all

lemma markFirst_nth:
  "i < length xs \<Longrightarrow>
   markFirst p xs ! i =
     (if js_strict_eq (price (xs ! i)) p \<and> (\<forall>j<i. \<not> js_strict_eq (price (xs ! j)) p)
      then (xs ! i)\<lparr>triggered := True\<rparr> else xs ! i)"
proof (induction xs arbitrary: i)
  case Nil
  then show ?case by simp
next
  case (Cons a as)
  show ?case
  proof (cases i)
    case 0
    then show ?thesis by simp
  next
    case (Suc k)
    then have k: "k < length as" using Cons.prems by simp
    have shift: "(\<forall>j<Suc k. \<not> js_strict_eq (price ((a # as) ! j)) p) \<longleftrightarrow>
                 \<not> js_strict_eq (price a) p \<and> (\<forall>j<k. \<not> js_strict_eq (price (as ! j)) p)"
      by (auto simp add: less_Suc_eq_0_disj)
    show ?thesis
      using Cons.IH [OF k] by (auto simp add: Suc shift)
  qed
qed

lemma fold_markFirst_length: "length (fold markFirst ps xs) = length xs"
  by (induction ps arbitrary: xs) (simp_all add: markFirst_length)

lemma fold_markFirst_prices: "map price (fold markFirst ps xs) = map price xs"
  by (induction ps arbitrary: xs) (simp_all add: markFirst_prices)

lemma fold_markFirst_Nil: "fold markFirst ps [] = []"
  by (induction ps) simp_all

lemma fold_markFirst_nth:
  "i < length xs \<Longrightarrow>
   fold markFirst ps xs ! i =
     (if \<exists>p\<in>set ps. js_strict_eq (price (xs ! i)) p \<and> (\<forall>j<i. \<not> js_strict_eq (price (xs ! j)) p)
      then (xs ! i)\<lparr>triggered := True\<rparr> else xs ! i)"
proof (induction ps arbitrary: xs)
  case Nil
  then show ?case by simp
next
  case (Cons q ps)
  let ?ys = "markFirst q xs"
  have len: "i < length ?ys" using Cons.prems by (simp add: markFirst_length)
  have pr: "price (?ys ! j) = price (xs ! j)" if "j < length xs" for j
    using markFirst_prices [of q xs] that
    by (metis length_map nth_map)
  have pri: "price (?ys ! i) = price (xs ! i)" using pr Cons.prems by simp
  have prj: "(\<forall>j<i. \<not> js_strict_eq (price (?ys ! j)) p) \<longleftrightarrow>
             (\<forall>j<i. \<not> js_strict_eq (price (xs ! j)) p)" for p
    using pr Cons.prems by auto
  show ?case
    using Cons.IH [OF len] markFirst_nth [OF Cons.prems, of q]
    by (auto simp add: pri prj)
qed

lemma pushPrice_keys: "map fst (pushPrice m p acc) = map fst acc"
  by (induction acc) (auto simp add: pushPrice_def)

lemma pushPrice_map_of:
  "map_of (pushPrice m p acc) k =
     (if k = m then map_option (\<lambda>ps. ps @ [p]) (map_of acc m) else map_of acc k)"
  by (induction acc) (auto simp add: pushPrice_def)

lemma groupStep_regular:
  assumes "\<not> collides ev" and "distinct (map fst acc)"
  shows "\<exists>acc'. groupStep acc ev = Inr acc' \<and> distinct (map fst acc')
           \<and> (\<forall>m. groupedPrices acc' m = groupedPrices acc m @ eventPrices m [ev])"
proof (cases "ev_price ev")
  case (JNumber p)
  show ?thesis
  proof (cases "truthy_str (ev_market ev)")
    case False
    then show ?thesis
      using assms(2) JNumber
      by (cases "ev_market ev") (auto simp add: groupStep_def eventPrices_def)
  next
    case True
    then obtain k where k: "ev_market ev = Some k" "k \<noteq> []"
      by (cases "ev_market ev") auto
    have nc: "k \<notin> set objectPrototypeKeys"
      using assms(1) JNumber k by (simp add: collides_def)
    have ep: "eventPrices m [ev] = (if m = k then [p] else [])" for m
      using JNumber k by (auto simp add: eventPrices_def)
    show ?thesis
    proof (cases "map_of acc k")
      case None
      then have nk: "k \<notin> fst ` set acc" by (simp add: map_of_eq_None_iff)
      have g: "groupStep acc ev = Inr (acc @ [(k, [p])])"
        using JNumber k None nc by (simp add: groupStep_def)
      have d: "distinct (map fst (acc @ [(k, [p])]))"
        using assms(2) nk by simp
      have "groupedPrices (acc @ [(k, [p])]) m = groupedPrices acc m @ eventPrices m [ev]" for m
        using None
        by (auto simp add: groupedPrices_def ep map_add_def split: option.splits)
      then show ?thesis using g d by blast
    next
      case (Some ps)
      have g: "groupStep acc ev = Inr (pushPrice k p acc)"
        using JNumber k Some by (simp add: groupStep_def)
      have d: "distinct (map fst (pushPrice k p acc))"
        using assms(2) by (simp add: pushPrice_keys)
      have "groupedPrices (pushPrice k p acc) m = groupedPrices acc m @ eventPrices m [ev]" for m
        using Some by (auto simp add: groupedPrices_def ep pushPrice_map_of split: option.splits)
      then show ?thesis using g d by blast
    qed
  qed
next
  case (JString s)
  then show ?thesis using assms(2) by (simp add: groupStep_def eventPrices_def)
next
  case JUndefined
  then show ?thesis using assms(2) by (simp add: groupStep_def eventPrices_def)
qed

lemma eventPrices_Cons: "eventPrices m (ev # evs) = eventPrices m [ev] @ eventPrices m evs"
  by (simp add: eventPrices_def)

lemma groupByMarket_regular:
  assumes "\<forall>ev\<in>set evs. \<not> collides ev" and "distinct (map fst acc)"
  shows "\<exists>acc'. groupByMarket acc evs = Inr acc' \<and> distinct (map fst acc')
           \<and> (\<forall>m. groupedPrices acc' m = groupedPrices acc m @ eventPrices m evs)"
  using assms
proof (induction evs arbitrary: acc)
  case Nil
  then show ?case by (simp add: eventPrices_def)
next
  case (Cons ev evs)
  obtain acc1 where a1: "groupStep acc ev = Inr acc1" "distinct (map fst acc1)"
    "\<forall>m. groupedPrices acc1 m = groupedPrices acc m @ eventPrices m [ev]"
    using groupStep_regular [of ev acc] Cons.prems by auto
  obtain acc2 where a2: "groupByMarket acc1 evs = Inr acc2" "distinct (map fst acc2)"
    "\<forall>m. groupedPrices acc2 m = groupedPrices acc1 m @ eventPrices m evs"
    using Cons.IH [OF _ a1(2)] Cons.prems(1) by auto
  have "groupByMarket acc (ev # evs) = Inr acc2" using a1(1) a2(1) by simp
  moreover have "\<forall>m. groupedPrices acc2 m = groupedPrices acc m @ eventPrices m (ev # evs)"
    using a1(3) a2(3) eventPrices_Cons [of _ ev evs] by simp
  ultimately show ?case using a2(2) by blast
qed

lemma forInOrder_set: "set (forInOrder acc) = set acc"
  by (auto simp add: forInOrder_def)

lemma forInOrder_distinct:
  assumes "distinct (map fst acc)"
  shows "distinct (map fst (forInOrder acc))"
proof -
  have d: "distinct acc" and i: "inj_on fst (set acc)"
    using assms by (simp_all add: distinct_map)
  have "distinct (forInOrder acc)"
    using d by (auto simp add: forInOrder_def)
  then show ?thesis
    using i by (simp add: distinct_map forInOrder_set)
qed

lemma forInOrder_groupedPrices:
  assumes "distinct (map fst acc)"
  shows "groupedPrices (forInOrder acc) m = groupedPrices acc m"
proof -
  have "map_of (forInOrder acc) = map_of acc"
    using map_of_inject_set [OF forInOrder_distinct [OF assms] assms] forInOrder_set
    by blast
  then show ?thesis by (simp add: groupedPrices_def)
qed

lemma groupedPrices_Cons:
  "groupedPrices ((k, ps) # rest) m = (if m = k then ps else groupedPrices rest m)"
  by (simp add: groupedPrices_def)

lemma groupedPrices_not_key: "m \<notin> fst ` set kvs \<Longrightarrow> groupedPrices kvs m = []"
  by (simp add: groupedPrices_def map_of_eq_None_iff [THEN iffD2])

lemma processMarkets_store:
  "distinct (map fst kvs) \<Longrightarrow>
   store (processMarkets kvs w) m = fold markFirst (groupedPrices kvs m) (store w m)"
proof (induction kvs arbitrary: w)
  case Nil
  then show ?case by (simp add: groupedPrices_def)
next
  case (Cons kv kvs)
  obtain k ps where kv: "kv = (k, ps)" by (cases kv)
  have d: "distinct (map fst kvs)" and nk: "k \<notin> fst ` set kvs"
    using Cons.prems by (simp_all add: kv)
  have gk: "groupedPrices kvs k = []" using nk by (rule groupedPrices_not_key)
  show ?case
  proof (cases "store w k = []")
    case True
    then show ?thesis
      using Cons.IH [OF d, of w] gk
      by (simp add: kv wsGetAlerts_def groupedPrices_Cons fold_markFirst_Nil)
  next
    case False
    then show ?thesis
      using Cons.IH [OF d, of "wsSaveAlerts k (fold markFirst ps (store w k)) w"] gk
      by (simp add: kv wsGetAlerts_def groupedPrices_Cons wsSaveAlerts_frame)
  qed
qed

text \<open>
  For events none of which collides, \<open>markAlertsAsTriggered\<close> completes and leaves in the
  store, for every market, the stored list with the first alert of each of the market's
  prices marked.
\<close>

lemma markAlertsAsTriggered_regular:
  assumes "\<forall>ev\<in>set evs. \<not> collides ev"
  shows "fst (markAlertsAsTriggered w evs) = Returned ()"
    and "store (snd (markAlertsAsTriggered w evs)) m = fold markFirst (eventPrices m evs) (store w m)"
proof -
  obtain acc where a: "groupByMarket [] evs = Inr acc" "distinct (map fst acc)"
    "\<forall>m. groupedPrices acc m = groupedPrices [] m @ eventPrices m evs"
    using groupByMarket_regular [OF assms, of "[]"] by auto
  have g: "groupedPrices (forInOrder acc) m = eventPrices m evs"
    using a(3) forInOrder_groupedPrices [OF a(2)] by (simp add: groupedPrices_def)
  show "fst (markAlertsAsTriggered w evs) = Returned ()"
    by (simp add: markAlertsAsTriggered_def a(1))
  show "store (snd (markAlertsAsTriggered w evs)) m
          = fold markFirst (eventPrices m evs) (store w m)"
    using processMarkets_store [OF forInOrder_distinct [OF a(2)], of w m] g
    by (simp add: markAlertsAsTriggered_def a(1))
qed

text \<open>
  In terms of the alerts: the list keeps its length, the alert at position \<open>i\<close> ends with
  \<open>triggered = true\<close> and is otherwise unchanged when one of the market's prices is equal
  (\<open>===\<close>) to its price and to the price of no alert before it, and every other alert is
  exactly as it was. An event without a market, with a price that is not a number, or with a
  price that no stored alert has, changes nothing.
\<close>

lemma markAlertsAsTriggered_marks_first_match:
  assumes "\<forall>ev\<in>set evs. \<not> collides ev"
    and "w' = snd (markAlertsAsTriggered w evs)"
  shows "length (store w' m) = length (store w m)"
    and "i < length (store w m) \<Longrightarrow>
         store w' m ! i =
           (if \<exists>p\<in>set (eventPrices m evs).
                 js_strict_eq (price (store w m ! i)) p
                 \<and> (\<forall>j<i. \<not> js_strict_eq (price (store w m ! j)) p)
            then (store w m ! i)\<lparr>triggered := True\<rparr> else store w m ! i)"
    and "eventPrices m evs = [] \<Longrightarrow> store w' m = store w m"
  unfolding assms(2) markAlertsAsTriggered_regular(2) [OF assms(1)]
  by (simp_all add: fold_markFirst_length fold_markFirst_nth)

text \<open>
  C2, the code at the failing input: the store holds the alert on \<open>ETH-USD\<close> at
  \<open>2000\<close>, not triggered, and the events are one for that market and price and one for a
  market called \<open>constructor\<close>. Grouping the second event throws a TypeError, so the call
  fails before any market is processed and the stored alert is not marked. The event for
  \<open>constructor\<close> alone, which matches no stored alert, throws as well.
\<close>

theorem markAlertsAsTriggered_throws_on_inherited_name:
  "fst (markAlertsAsTriggered worldStored [sampleEvent, constructorEvent])
     = Thrown (TypeError ''acc[market].push is not a function'')
   \<and> snd (markAlertsAsTriggered worldStored [sampleEvent, constructorEvent]) = worldStored
   \<and> store worldStored ''ETH-USD'' = [sampleAlert]
   \<and> triggered sampleAlert = False
   \<and> fst (markAlertsAsTriggered worldStored [constructorEvent])
     = Thrown (TypeError ''acc[market].push is not a function'')"
  by (simp add: markAlertsAsTriggered_def groupStep_def sampleEvent_def constructorEvent_def
        objectPrototypeKeys_def worldStored_def world0_def sampleAlert_def)

end
